theory Spec2Isabelle
  imports Complex_Main "HOL-Library.Multiset" "HOL-Library.Log_Nat"
begin

section \<open>Configuration\<close>

text \<open>
  The constants of \<^verbatim>\<open>GAME_CONFIG\<close> in \<^verbatim>\<open>src/server.js\<close>. JavaScript numbers are
  modelled by mathematical reals (and by naturals or integers where the code only counts);
  rounding of IEEE doubles is not modelled.
\<close>

definition CANVAS_WIDTH :: real where "CANVAS_WIDTH = 900"
definition CANVAS_HEIGHT :: real where "CANVAS_HEIGHT = 500"
definition PADDLE_WIDTH :: real where "PADDLE_WIDTH = 15"
definition PADDLE_HEIGHT :: real where "PADDLE_HEIGHT = 80"
definition BALL_SIZE :: real where "BALL_SIZE = 15"
definition PLAYER_SPEED :: real where "PLAYER_SPEED = 8"
definition MIN_BALL_SPEED :: real where "MIN_BALL_SPEED = 4"
definition MAX_BALL_SPEED :: real where "MAX_BALL_SPEED = 12"
definition SPEED_INCREMENT :: real where "SPEED_INCREMENT = 0.05"
definition DEFAULT_MATCH_DURATION :: int where "DEFAULT_MATCH_DURATION = 180"
definition GOLDEN_GOAL_WARNING :: int where "GOLDEN_GOAL_WARNING = 5"

section \<open>TournamentBracket\<close>

text \<open>
  One entry of a bracket round (the object literals pushed by \<^verbatim>\<open>createFirstRound\<close> and
  \<^verbatim>\<open>createNextRound\<close>). A bye entry has no \<^verbatim>\<open>score\<close> property.
\<close>

record bmatch =
  bm_id :: string
  bm_player1 :: string
  bm_player2 :: string
  isBye :: bool
  completed :: bool
  bm_winner :: "string option"
  bm_score :: "(string \<times> nat) list option"

record round_result =
  rr_matchId :: string
  rr_winner :: string
  rr_loser :: string
  rr_score :: "(string \<times> nat) list option"

text \<open>Work handed to \<^verbatim>\<open>setTimeout\<close> by the bracket; it runs later, outside these functions.\<close>

datatype bracket_task =
  EndTournament "string option"
| RoundAnnouncement nat string nat

text \<open>
  The fields of a \<^verbatim>\<open>TournamentBracket\<close> object, together with the two fields of the global
  \<^verbatim>\<open>gameState\<close> that its methods write (\<^verbatim>\<open>statistics.byesAwarded\<close>,
  \<^verbatim>\<open>eliminatedPlayers\<close>) and the tasks it has scheduled.
\<close>

record tournament =
  players :: "string list"
  originalPlayerCount :: nat
  bracket :: "nat \<rightharpoonup> bmatch list"
  currentRound :: nat
  totalRounds :: nat
  byeHistory :: "string \<rightharpoonup> nat"
  roundResults :: "nat \<rightharpoonup> round_result list"
  byesAwarded :: nat
  eliminatedPlayers :: "string set"
  scheduled :: "bracket_task list"

datatype bracket_error = InvalidPlayers | NoCurrentRound

text \<open>Decimal rendering of a number inside a template string.\<close>

fun string_of_nat :: "nat \<Rightarrow> string" where
  "string_of_nat n =
     (if n < 10 then [char_of (48 + n)]
      else string_of_nat (n div 10) @ [char_of (48 + n mod 10)])"

declare string_of_nat.simps [simp del]





text \<open>
  \<^verbatim>\<open>selectPlayersForByes(count)\<close> sorts a copy of \<^verbatim>\<open>this.players\<close> with a comparator
  that answers at random on equal bye counts and takes the first \<^verbatim>\<open>count\<close> names. What
  \<^verbatim>\<open>Array.prototype.sort\<close> returns under such a comparator is a rearrangement of the
  players that the engine chooses; it is the parameter \<open>playersByByes\<close> here.
\<close>

definition selectPlayersForByes :: "string list \<Rightarrow> nat \<Rightarrow> string list" where
  "selectPlayersForByes playersByByes cnt = take cnt playersByByes"

definition byeMatch :: "nat \<Rightarrow> string \<Rightarrow> bmatch" where
  "byeMatch r player =
     \<lparr>bm_id = ''r'' @ string_of_nat r @ ''-bye-'' @ player, bm_player1 = player,
      bm_player2 = ''BYE'', isBye = True, completed = False, bm_winner = None,
      bm_score = None\<rparr>"

text \<open>The object literal \<^verbatim>\<open>{ [a]: 0, [b]: 0 }\<close>: one key when both names are equal.\<close>

definition zeroScore :: "string \<Rightarrow> string \<Rightarrow> (string \<times> nat) list" where
  "zeroScore a b = (if a = b then [(a, 0)] else [(a, 0), (b, 0)])"

definition regularMatch :: "nat \<Rightarrow> nat \<Rightarrow> string \<Rightarrow> string \<Rightarrow> bmatch" where
  "regularMatch r k a b =
     \<lparr>bm_id = ''r'' @ string_of_nat r @ ''-m'' @ string_of_nat k, bm_player1 = a,
      bm_player2 = b, isBye = False, completed = False, bm_winner = None,
      bm_score = Some (zeroScore a b)\<rparr>"

text \<open>
  The pairing loop \<^verbatim>\<open>for (i = 0; i < n; i += 2) if (i + 1 < n) push(...)\<close>: \<open>k\<close> is
  \<^verbatim>\<open>Math.floor(i/2) + 1\<close>; a last unpaired name produces nothing.
\<close>

fun pairMatches :: "nat \<Rightarrow> nat \<Rightarrow> string list \<Rightarrow> bmatch list" where
  "pairMatches r k (a # b # rest) = regularMatch r k a b # pairMatches r (Suc k) rest"
| "pairMatches r k [a] = []"
| "pairMatches r k [] = []"

definition awardBye :: "tournament \<Rightarrow> string \<Rightarrow> tournament" where
  "awardBye t player =
     t\<lparr>byeHistory := (byeHistory t)(player \<mapsto> (case byeHistory t player of None \<Rightarrow> 0 | Some c \<Rightarrow> c) + 1),
       byesAwarded := byesAwarded t + 1\<rparr>"





text \<open>
  \<^verbatim>\<open>createNextRound(winners)\<close>. On an odd number of winners the bye candidate is the
  first name of \<^verbatim>\<open>selectPlayersForByes(1)\<close> (\<^verbatim>\<open>undefined\<close> on an empty array, here
  \<open>None\<close>), drawn from all of \<^verbatim>\<open>this.players\<close>; the bye is created only if that name
  is among the winners.
\<close>

definition createNextRound :: "string list \<Rightarrow> tournament \<Rightarrow> string list \<Rightarrow> bmatch list \<times> tournament" where
  "createNextRound playersByByes t winners =
     (if length winners mod 2 = 1 then
        (case selectPlayersForByes playersByByes 1 of
           byePlayer # _ \<Rightarrow>
             if byePlayer \<in> set winners then
               (byeMatch (currentRound t) byePlayer
                  # pairMatches (currentRound t) 1 (remove1 byePlayer winners),
                awardBye t byePlayer)
             else (pairMatches (currentRound t) 1 winners, t)
         | [] \<Rightarrow> (pairMatches (currentRound t) 1 winners, t))
      else (pairMatches (currentRound t) 1 winners, t))"

definition completeTournament :: "tournament \<Rightarrow> bracket_error + tournament" where
  "completeTournament t =
     (case bracket t (currentRound t) of
        None \<Rightarrow> Inl NoCurrentRound
      | Some finalRoundMatches \<Rightarrow>
          (let champion = (case find completed finalRoundMatches of
                             None \<Rightarrow> None | Some m \<Rightarrow> bm_winner m)
           in Inr (t\<lparr>scheduled := scheduled t @ [EndTournament champion]\<rparr>)))"

definition roundNameOf :: "nat \<Rightarrow> int \<Rightarrow> nat \<Rightarrow> string" where
  "roundNameOf r roundsRemaining actual =
     (if roundsRemaining = 1 \<or> actual = 1 then ''FINAL''
      else if roundsRemaining = 2 \<or> actual = 2 then ''SEMI-FINALS''
      else if roundsRemaining = 3 \<or> actual = 4 then ''QUARTER-FINALS''
      else if roundsRemaining = 4 \<or> actual = 8 then ''ROUND OF 16''
      else ''Round '' @ string_of_nat r)"

definition winnersOf :: "bmatch list \<Rightarrow> string list" where
  "winnersOf ms = concat (map (\<lambda>m. case bm_winner m of None \<Rightarrow> [] | Some w \<Rightarrow> [w]) ms)"

definition prepareNextRound :: "string list \<Rightarrow> tournament \<Rightarrow> bracket_error + tournament" where
  "prepareNextRound playersByByes t =
     (if currentRound t \<ge> totalRounds t then completeTournament t
      else
        (case bracket t (currentRound t) of
           None \<Rightarrow> Inl NoCurrentRound
         | Some currentRoundMatches \<Rightarrow>
             (let winners = winnersOf currentRoundMatches in
              if length winners = 1 then completeTournament t
              else
                (let t1 = t\<lparr>currentRound := currentRound t + 1\<rparr>;
                     (nextRoundMatches, t2) = createNextRound playersByByes t1 winners;
                     t3 = t2\<lparr>bracket := (bracket t2)(currentRound t2 \<mapsto> nextRoundMatches)\<rparr>;
                     actualMatches = filter (\<lambda>m. \<not> isBye m) nextRoundMatches;
                     roundsRemaining = int (totalRounds t3) - int (currentRound t3) + 1;
                     roundName = roundNameOf (currentRound t3) roundsRemaining (length actualMatches)
                 in Inr (t3\<lparr>scheduled := scheduled t3 @
                            [RoundAnnouncement (currentRound t3) roundName (length actualMatches)]\<rparr>)))))"

definition isRoundComplete :: "tournament \<Rightarrow> bool" where
  "isRoundComplete t =
     list_all completed (case bracket t (currentRound t) of None \<Rightarrow> [] | Some ms \<Rightarrow> ms)"

text \<open>The first entry that satisfies \<open>P\<close> is the object \<^verbatim>\<open>find\<close> returns and the code mutates.\<close>

fun updateFirst :: "('a \<Rightarrow> bool) \<Rightarrow> ('a \<Rightarrow> 'a) \<Rightarrow> 'a list \<Rightarrow> 'a list" where
  "updateFirst P f [] = []"
| "updateFirst P f (x # xs) = (if P x then f x # xs else x # updateFirst P f xs)"

text \<open>
  \<^verbatim>\<open>advanceMatch(matchId, winner, score)\<close>: the boolean is the value returned. A missing
  current round makes \<^verbatim>\<open>.find\<close> throw.
\<close>

definition advanceMatch ::
    "string list \<Rightarrow> string \<Rightarrow> string \<Rightarrow> (string \<times> nat) list option \<Rightarrow> tournament
       \<Rightarrow> bracket_error + (bool \<times> tournament)" where
  "advanceMatch playersByByes matchId winner score t =
     (case bracket t (currentRound t) of
        None \<Rightarrow> Inl NoCurrentRound
      | Some currentRoundMatches \<Rightarrow>
          (case find (\<lambda>m. bm_id m = matchId) currentRoundMatches of
             None \<Rightarrow> Inr (False, t)
           | Some match \<Rightarrow>
               (let ms' = updateFirst (\<lambda>m. bm_id m = matchId)
                            (\<lambda>m. m\<lparr>completed := True, bm_winner := Some winner,
                                   bm_score := (case score of None \<Rightarrow> bm_score m | Some s \<Rightarrow> Some s)\<rparr>)
                            currentRoundMatches;
                    t1 = t\<lparr>bracket := (bracket t)(currentRound t \<mapsto> ms')\<rparr>;
                    loser = (if bm_player1 match = winner then bm_player2 match else bm_player1 match);
                    t2 = t1\<lparr>roundResults := (roundResults t1)(currentRound t1 \<mapsto>
                            (case roundResults t1 (currentRound t1) of None \<Rightarrow> [] | Some rs \<Rightarrow> rs)
                            @ [\<lparr>rr_matchId = matchId, rr_winner = winner, rr_loser = loser,
                                rr_score = score\<rparr>])\<rparr>;
                    t3 = (if \<not> isBye match \<and> loser \<noteq> ''BYE''
                          then t2\<lparr>eliminatedPlayers := insert loser (eliminatedPlayers t2)\<rparr>
                          else t2)
                in if isRoundComplete t3
                   then (case prepareNextRound playersByByes t3 of
                           Inl e \<Rightarrow> Inl e | Inr t4 \<Rightarrow> Inr (True, t4))
                   else Inr (True, t3))))"

subsection \<open>Notions used to state the bracket properties\<close>





section \<open>GameInstance: state\<close>

text \<open>A value of the global player map \<^verbatim>\<open>gameState.players\<close> (the fields the simulator uses).\<close>

record player =
  p_matches :: nat
  wins :: nat
  draws :: nat
  losses :: nat
  points :: nat
  goalsFor :: nat
  goalsAgainst :: nat
  shots :: nat
  saves :: nat
  accuracy :: real
  totalPlayTime :: real
  averageGoalsPerMatch :: real
  averageConcededPerMatch :: real
  formGuide :: string
  disconnected :: bool

text \<open>A value of \<^verbatim>\<open>gameState.matches\<close>.\<close>

record match_record =
  mr_player1 :: string
  mr_player2 :: string
  mr_matchday :: "nat option"
  mr_isTournamentMatch :: bool
  finished :: bool
  finalScore :: "(string \<Rightarrow> nat) option"
  duration :: "real option"
  mr_maxRally :: "nat option"
  mr_winner :: "string option"

record league_result =
  lr_matchId :: string
  lr_player1 :: string
  lr_player2 :: string
  lr_score :: "string \<Rightarrow> nat"
  lr_matchday :: "nat option"

text \<open>The callbacks handed to \<^verbatim>\<open>setInterval\<close> and \<^verbatim>\<open>setTimeout\<close>, by the match they close over.\<close>

datatype callback =
  TimerCallback string
| MonitorCallback string
| LoopCallback string
| EnterGoldenGoalCallback string
| EndGameCallback string string
| RoomCleanupCallback string
| NextMatchdayCallback
| DisconnectionCallback string

text \<open>What the server sends: the event name and the fields of the payload that matter here.\<close>

datatype emission =
  MatchStart string
| PaddleHit string string nat real
| GoalScored string string nat nat nat int bool
| GoldenGoalWarning string int
| TimerUpdate string int bool bool
| AdminMatchUpdate string int bool bool
| StateUpdate string int int nat nat
| MatchFinished string "string option" string nat
| BracketUpdated string string
| MatchdayFinished nat
| PlayerDisconnected string

text \<open>
  The global \<^verbatim>\<open>gameState\<close> with the runtime around it: the armed timers by handle (an
  interval stays armed when it fires, a timeout does not), the number of sockets in each
  room, whether an admin socket is connected, and everything emitted so far, oldest first.
  \<^verbatim>\<open>gameState.activeGames\<close> is kept by its keys, in insertion order; the objects
  themselves are in the object store of a \<open>world\<close> below.
\<close>

record server =
  gs_players :: "(string \<times> player) list"
  gs_matches :: "(string \<times> match_record) list"
  gs_activeGames :: "string list"
  gs_results :: "league_result list"
  gs_leagueStarted :: bool
  gs_currentMatchday :: nat
  gs_completedMatches :: nat
  gs_tournamentBracket :: "tournament option"
  gs_goldenGoalMatches :: "string set"
  averageMatchDuration :: real
  totalGoals :: nat
  totalShots :: nat
  totalSaves :: nat
  longestRally :: nat
  goldenGoalCount :: nat
  disconnectionTimeouts :: "string \<rightharpoonup> nat"
  timers :: "(nat \<times> bool \<times> callback) list"
  nextHandle :: nat
  rooms :: "string \<Rightarrow> nat"
  adminConnected :: bool
  emitted :: "emission list"

record player_input =
  up :: bool
  down :: bool

datatype performance_mode = HIGH | MEDIUM | LOW

text \<open>
  A \<^verbatim>\<open>GameInstance\<close>. The fields of \<^verbatim>\<open>this.gameState\<close> (ball, paddles, tick) are
  inlined. \<^verbatim>\<open>score\<close> is read and written at the two player names only. A timer field
  holds the handle or \<open>None\<close> for \<^verbatim>\<open>null\<close>.
\<close>

record game =
  matchId :: string
  player1 :: string
  player2 :: string
  isTournamentMatch :: bool
  ballX :: real
  ballY :: real
  ballSpeedX :: real
  ballSpeedY :: real
  player1Y :: real
  player2Y :: real
  lastUpdate :: real
  serverTick :: nat
  score :: "string \<Rightarrow> nat"
  gameActive :: bool
  gameTimer :: "nat option"
  timeLeft :: int
  goldenGoalMode :: bool
  goldenGoalWarning :: bool
  gamePausedForGoldenGoal :: bool
  playerInputs :: "string \<rightharpoonup> player_input"
  performanceMode :: performance_mode
  frameInterval :: real
  lastFrameTime :: real
  rallyCount :: nat
  maxRally :: nat
  matchStartTime :: real
  monitoringInterval :: "nat option"
  cleanedUp :: bool
  loopTimeout :: "nat option"
  lastLoopTime :: "real option"
  lastStateBroadcast :: real
  broadcastInterval :: real
  playerLatency :: "string \<Rightarrow> real"
  storedBallState :: "(real \<times> real \<times> real \<times> real) option"

text \<open>
  The values \<^verbatim>\<open>Math.random()\<close> returns during one callback: in \<^verbatim>\<open>checkWallCollisions\<close>
  and, in call order, the three of \<^verbatim>\<open>resetBall\<close>.
\<close>

record randoms =
  r_wall :: real
  r_speed :: real
  r_side :: real
  r_angle :: real

definition valid_randoms :: "randoms \<Rightarrow> bool" where
  "valid_randoms r \<longleftrightarrow> 0 \<le> r_wall r \<and> r_wall r < 1 \<and> 0 \<le> r_speed r \<and> r_speed r < 1
     \<and> 0 \<le> r_side r \<and> r_side r < 1 \<and> 0 \<le> r_angle r \<and> r_angle r < 1"

subsection \<open>Timers and the player map\<close>

definition setTimer :: "bool \<Rightarrow> callback \<Rightarrow> server \<Rightarrow> nat \<times> server" where
  "setTimer repeating cb s =
     (nextHandle s, s\<lparr>timers := timers s @ [(nextHandle s, repeating, cb)],
                       nextHandle := nextHandle s + 1\<rparr>)"

text \<open>\<^verbatim>\<open>clearInterval\<close> and \<^verbatim>\<open>clearTimeout\<close> cancel either kind of timer.\<close>

definition clearTimer :: "nat \<Rightarrow> server \<Rightarrow> server" where
  "clearTimer h s = s\<lparr>timers := filter (\<lambda>(k, _). k \<noteq> h) (timers s)\<rparr>"


definition emit :: "emission \<Rightarrow> server \<Rightarrow> server" where
  "emit e s = s\<lparr>emitted := emitted s @ [e]\<rparr>"

text \<open>Mutation of the player object stored under a name, if there is one.\<close>

definition updatePlayer :: "string \<Rightarrow> (player \<Rightarrow> player) \<Rightarrow> server \<Rightarrow> server" where
  "updatePlayer name f s =
     s\<lparr>gs_players := map (\<lambda>(k, p). if k = name then (k, f p) else (k, p)) (gs_players s)\<rparr>"

section \<open>GameInstance: physics\<close>

text \<open>
  \<^verbatim>\<open>resetBall\<close>: the ball goes to the centre; a live match serves it (speed
  \<open>4 + Math.random() * 2\<close>, between 4 and 6, side and angle at random) and clears the rally
  count, otherwise it rests.
\<close>

definition resetBall :: "randoms \<Rightarrow> game \<Rightarrow> game" where
  "resetBall r g =
     (let g1 = g\<lparr>ballX := CANVAS_WIDTH / 2 - BALL_SIZE / 2,
                   ballY := CANVAS_HEIGHT / 2 - BALL_SIZE / 2\<rparr> in
      if gameActive g1 then
        (let speed = MIN_BALL_SPEED + r_speed r * 2 in
         g1\<lparr>ballSpeedX := (if r_side r > 0.5 then speed else - speed),
             ballSpeedY := (r_angle r - 0.5) * speed,
             rallyCount := 0\<rparr>)
      else g1\<lparr>ballSpeedX := 0, ballSpeedY := 0\<rparr>)"

definition movePaddle :: "player_input option \<Rightarrow> real \<Rightarrow> real" where
  "movePaddle inp y =
     (case inp of
        None \<Rightarrow> y
      | Some i \<Rightarrow>
          (let y1 = (if up i \<and> y > 0 then max 0 (y - PLAYER_SPEED) else y) in
           if down i \<and> y1 < CANVAS_HEIGHT - PADDLE_HEIGHT
           then min (CANVAS_HEIGHT - PADDLE_HEIGHT) (y1 + PLAYER_SPEED) else y1))"

definition updatePaddles :: "game \<Rightarrow> game" where
  "updatePaddles g =
     g\<lparr>player1Y := movePaddle (playerInputs g (player1 g)) (player1Y g),
       player2Y := movePaddle (playerInputs g (player2 g)) (player2Y g)\<rparr>"

definition checkWallCollisions :: "randoms \<Rightarrow> game \<Rightarrow> game" where
  "checkWallCollisions r g =
     (if ballY g \<le> 0 \<or> ballY g + BALL_SIZE \<ge> CANVAS_HEIGHT then
        g\<lparr>ballSpeedY := - ballSpeedY g + (r_wall r - 0.5) * 0.5,
          ballY := max 0 (min (ballY g) (CANVAS_HEIGHT - BALL_SIZE))\<rparr>
      else g)"

text \<open>\<^verbatim>\<open>handlePaddleHit(playerName, paddleY, side)\<close>; \<open>left\<close> stands for \<^verbatim>\<open>side === 'left'\<close>.\<close>

definition handlePaddleHit :: "string \<Rightarrow> real \<Rightarrow> bool \<Rightarrow> game \<Rightarrow> server \<Rightarrow> game \<times> server" where
  "handlePaddleHit playerName paddleY left g s =
     (let vx0 = - ballSpeedX g;
          ballCenterY = ballY g + BALL_SIZE / 2;
          paddleCenterY = paddleY + PADDLE_HEIGHT / 2;
          hitPosition = (ballCenterY - paddleCenterY) / (PADDLE_HEIGHT / 2);
          vy0 = hitPosition * 3;
          speedMultiplier = 1 + SPEED_INCREMENT;
          vx1 = vx0 * speedMultiplier;
          vy1 = vy0 * speedMultiplier;
          maxSpeed = MAX_BALL_SPEED;
          vx2 = sgn vx1 * min \<bar>vx1\<bar> maxSpeed;
          vy2 = sgn vy1 * min \<bar>vy1\<bar> maxSpeed;
          g1 = g\<lparr>ballSpeedX := vx2, ballSpeedY := vy2,
                 ballX := (if left then PADDLE_WIDTH + 1
                           else CANVAS_WIDTH - PADDLE_WIDTH - BALL_SIZE - 1)\<rparr>;
          s1 = updatePlayer playerName
                 (\<lambda>p. p\<lparr>shots := shots p + 1,
                         accuracy := real (goalsFor p) / real (max (shots p + 1) 1)\<rparr>) s;
          g2 = g1\<lparr>rallyCount := rallyCount g1 + 1\<rparr>;
          g3 = g2\<lparr>maxRally := max (maxRally g2) (rallyCount g2)\<rparr>
      in (g3, emit (PaddleHit (matchId g3) playerName (rallyCount g3)
                      (sqrt (ballSpeedX g3 * ballSpeedX g3 + ballSpeedY g3 * ballSpeedY g3))) s1))"

definition checkPaddleCollisions :: "game \<Rightarrow> server \<Rightarrow> game \<times> server" where
  "checkPaddleCollisions g s =
     (let (g1, s1) =
            (if ballX g \<le> PADDLE_WIDTH \<and> ballSpeedX g < 0
                \<and> ballY g + BALL_SIZE \<ge> player1Y g \<and> ballY g \<le> player1Y g + PADDLE_HEIGHT
             then handlePaddleHit (player1 g) (player1Y g) True g s else (g, s))
      in if ballX g1 + BALL_SIZE \<ge> CANVAS_WIDTH - PADDLE_WIDTH \<and> ballSpeedX g1 > 0
            \<and> ballY g1 + BALL_SIZE \<ge> player2Y g1 \<and> ballY g1 \<le> player2Y g1 + PADDLE_HEIGHT
         then handlePaddleHit (player2 g1) (player2Y g1) False g1 s1 else (g1, s1))"

text \<open>
  \<^verbatim>\<open>handleGoal(scorer, opponent)\<close>. The ball is reset before the goal is announced, so the
  rally length in the announcement is the one \<^verbatim>\<open>resetBall\<close> left. In golden-goal mode the
  end of the match is put on a two-second timeout.
\<close>

definition handleGoal :: "randoms \<Rightarrow> string \<Rightarrow> string \<Rightarrow> game \<Rightarrow> server \<Rightarrow> game \<times> server" where
  "handleGoal r scorer opponent g s =
     (let g1 = g\<lparr>score := (score g)(scorer := score g scorer + 1)\<rparr>;
          s1 = updatePlayer scorer (\<lambda>p. p\<lparr>goalsFor := goalsFor p + 1\<rparr>) s;
          s2 = updatePlayer opponent (\<lambda>p. p\<lparr>goalsAgainst := goalsAgainst p + 1\<rparr>) s1;
          s3 = s2\<lparr>totalGoals := totalGoals s2 + 1\<rparr>;
          s4 = s3\<lparr>longestRally := max (longestRally s3) (rallyCount g1)\<rparr>;
          g2 = resetBall r g1;
          s5 = emit (GoalScored (matchId g2) scorer (score g2 (player1 g2)) (score g2 (player2 g2))
                       (rallyCount g2) (timeLeft g2) (goldenGoalMode g2)) s4
      in if goldenGoalMode g2
         then (g2, snd (setTimer False (EndGameCallback (matchId g2) ''golden-goal'') s5))
         else (g2, s5))"

definition checkGoals :: "randoms \<Rightarrow> game \<Rightarrow> server \<Rightarrow> game \<times> server" where
  "checkGoals r g s =
     (if ballX g < - BALL_SIZE then handleGoal r (player2 g) (player1 g) g s
      else if ballX g > CANVAS_WIDTH + BALL_SIZE then handleGoal r (player1 g) (player2 g) g s
      else (g, s))"

text \<open>
  \<^verbatim>\<open>updateBall\<close> over the reals. The test \<^verbatim>\<open>isNaN(...)\<close> at its head is false for every
  real number; what it does on the values of a JavaScript number that are not real numbers
  is the subject of the section on non-finite values.
\<close>

definition updateBall :: "randoms \<Rightarrow> game \<Rightarrow> server \<Rightarrow> game \<times> server" where
  "updateBall r g s =
     (let maxSpeed = MAX_BALL_SPEED * 1.5;
          currentSpeed = sqrt (ballSpeedX g * ballSpeedX g + ballSpeedY g * ballSpeedY g);
          g1 = (if currentSpeed > maxSpeed
                then (let ratio = maxSpeed / currentSpeed
                      in g\<lparr>ballSpeedX := ballSpeedX g * ratio, ballSpeedY := ballSpeedY g * ratio\<rparr>)
                else g);
          g2 = g1\<lparr>ballX := ballX g1 + ballSpeedX g1\<rparr>;
          g3 = g2\<lparr>ballY := ballY g2 + ballSpeedY g2\<rparr>;
          g4 = checkWallCollisions r g3;
          (g5, s5) = checkPaddleCollisions g4 s
      in checkGoals r g5 s5)"

definition updateStatistics :: "server \<Rightarrow> server" where
  "updateStatistics s =
     s\<lparr>totalShots := sum_list (map (\<lambda>(_, p). shots p) (gs_players s)),
       totalSaves := sum_list (map (\<lambda>(_, p). saves p) (gs_players s))\<rparr>"

text \<open>\<^verbatim>\<open>updateGame\<close>: one tick. The time step it computes is passed on but never used.\<close>

definition updateGame :: "real \<Rightarrow> randoms \<Rightarrow> game \<Rightarrow> server \<Rightarrow> game \<times> server" where
  "updateGame now r g s =
     (let g1 = g\<lparr>lastUpdate := now, serverTick := serverTick g + 1\<rparr>;
          g2 = updatePaddles g1;
          (g3, s3) = updateBall r g2 s
      in (g3, updateStatistics s3))"

section \<open>GameInstance: life cycle\<close>

text \<open>
  The constructor. \<open>leagueDuration\<close> is \<^verbatim>\<open>gameState.league?.matchDuration\<close>; the
  monitoring interval is armed at once.
\<close>

definition newGameInstance ::
    "string \<Rightarrow> string \<Rightarrow> string \<Rightarrow> bool \<Rightarrow> real \<Rightarrow> int option \<Rightarrow> server \<Rightarrow> game \<times> server" where
  "newGameInstance mid p1 p2 tournamentMatch now leagueDuration s =
     (let (h, s1) = setTimer True (MonitorCallback mid) s in
      (\<lparr>matchId = mid, player1 = p1, player2 = p2, isTournamentMatch = tournamentMatch,
        ballX = CANVAS_WIDTH / 2 - BALL_SIZE / 2, ballY = CANVAS_HEIGHT / 2 - BALL_SIZE / 2,
        ballSpeedX = 0, ballSpeedY = 0,
        player1Y = CANVAS_HEIGHT / 2 - PADDLE_HEIGHT / 2,
        player2Y = CANVAS_HEIGHT / 2 - PADDLE_HEIGHT / 2,
        lastUpdate = now, serverTick = 0, score = (\<lambda>_. 0), gameActive = False,
        gameTimer = None,
        timeLeft = (case leagueDuration of None \<Rightarrow> DEFAULT_MATCH_DURATION
                    | Some d \<Rightarrow> if d = 0 then DEFAULT_MATCH_DURATION else d),
        goldenGoalMode = False, goldenGoalWarning = False, gamePausedForGoldenGoal = False,
        playerInputs = [p1 \<mapsto> \<lparr>up = False, down = False\<rparr>, p2 \<mapsto> \<lparr>up = False, down = False\<rparr>],
        performanceMode = HIGH, frameInterval = 1000 / 60, lastFrameTime = 0,
        rallyCount = 0, maxRally = 0, matchStartTime = now, monitoringInterval = Some h,
        cleanedUp = False, loopTimeout = None, lastLoopTime = None, lastStateBroadcast = 0,
        broadcastInterval = 33, playerLatency = (\<lambda>_. 0), storedBallState = None\<rparr>, s1))"

definition fps :: "performance_mode \<Rightarrow> real" where
  "fps m = (case m of HIGH \<Rightarrow> 60 | MEDIUM \<Rightarrow> 45 | LOW \<Rightarrow> 30)"

definition interpolation :: "performance_mode \<Rightarrow> bool" where
  "interpolation m = (case m of HIGH \<Rightarrow> True | MEDIUM \<Rightarrow> True | LOW \<Rightarrow> False)"

text \<open>\<^verbatim>\<open>Math.round\<close>: to the nearest integer, halves upwards.\<close>

definition js_round :: "real \<Rightarrow> int" where
  "js_round x = \<lfloor>x + 1 / 2\<rfloor>"

definition broadcastGameState :: "game \<Rightarrow> server \<Rightarrow> server" where
  "broadcastGameState g s =
     (if rooms s (matchId g) = 0 then s
      else emit (StateUpdate (matchId g) (js_round (ballX g)) (js_round (ballY g))
                   (serverTick g) (rallyCount g)) s)"

definition broadcastToAdmin :: "game \<Rightarrow> server \<Rightarrow> server" where
  "broadcastToAdmin g s =
     (if adminConnected s
      then emit (AdminMatchUpdate (matchId g) (timeLeft g) (gameActive g) (goldenGoalMode g)) s
      else s)"

text \<open>
  \<^verbatim>\<open>endGame\<close> needs the method and the global function of the same name
  \<^verbatim>\<open>updatePlayerStats\<close>; the method comes first.
\<close>

definition formResult :: "nat \<Rightarrow> nat \<Rightarrow> char" where
  "formResult playerScore opponentScore =
     (if playerScore > opponentScore then CHR ''W''
      else if playerScore < opponentScore then CHR ''L'' else CHR ''D'')"

definition statsForPlayer :: "real \<Rightarrow> game \<Rightarrow> string \<Rightarrow> player \<Rightarrow> player" where
  "statsForPlayer now g playerName p =
     (let p1 = p\<lparr>p_matches := p_matches p + 1,
                  totalPlayTime := totalPlayTime p + (now - matchStartTime g)\<rparr>;
          p2 = (if shots p1 > 0 then p1\<lparr>accuracy := real (goalsFor p1) / real (shots p1)\<rparr> else p1);
          playerScore = score g playerName;
          opponentName = (if playerName = player1 g then player2 g else player1 g);
          opponentScore = score g opponentName;
          p3 = (if playerScore > opponentScore
                then p2\<lparr>wins := wins p2 + 1, points := points p2 + 3\<rparr>
                else if playerScore < opponentScore
                then p2\<lparr>losses := losses p2 + 1\<rparr>
                else p2\<lparr>draws := draws p2 + 1, points := points p2 + 1\<rparr>);
          p4 = p3\<lparr>averageGoalsPerMatch := real (goalsFor p3) / real (max (p_matches p3) 1),
                   averageConcededPerMatch := real (goalsAgainst p3) / real (max (p_matches p3) 1)\<rparr>
      in p4\<lparr>formGuide := take 5 (formResult playerScore opponentScore # formGuide p4)\<rparr>)"

text \<open>The method \<^verbatim>\<open>GameInstance.updatePlayerStats\<close>: first \<^verbatim>\<open>player1\<close>, then \<^verbatim>\<open>player2\<close>.\<close>

definition updatePlayerStats :: "real \<Rightarrow> game \<Rightarrow> server \<Rightarrow> server" where
  "updatePlayerStats now g s =
     updatePlayer (player2 g) (statsForPlayer now g (player2 g))
       (updatePlayer (player1 g) (statsForPlayer now g (player1 g)) s)"

text \<open>The global function \<^verbatim>\<open>updatePlayerStats(match)\<close>: it only files the result.\<close>

definition recordLeagueResult :: "string \<Rightarrow> match_record \<Rightarrow> server \<Rightarrow> server" where
  "recordLeagueResult mid m s =
     (if map_of (gs_players s) (mr_player1 m) = None \<or> map_of (gs_players s) (mr_player2 m) = None
      then s
      else s\<lparr>gs_results := gs_results s @
              [\<lparr>lr_matchId = mid, lr_player1 = mr_player1 m, lr_player2 = mr_player2 m,
                lr_score = (case finalScore m of None \<Rightarrow> (\<lambda>_. 0) | Some f \<Rightarrow> f),
                lr_matchday = mr_matchday m\<rparr>]\<rparr>)"

text \<open>
  \<^verbatim>\<open>checkMatchdayComplete\<close>: when every match of the current matchday is finished it
  announces the matchday, moves to the next and puts its start on a timeout. The league
  table it also rebuilds is a report derived from the player map and is not kept here.
\<close>

definition checkMatchdayComplete :: "server \<Rightarrow> server" where
  "checkMatchdayComplete s =
     (let currentMatches = filter (\<lambda>(_, m). mr_matchday m = Some (gs_currentMatchday s + 1))
                             (gs_matches s) in
      if list_all (\<lambda>(_, m). finished m) currentMatches then
        (let s1 = emit (MatchdayFinished (gs_currentMatchday s + 1)) s;
             s2 = s1\<lparr>gs_currentMatchday := gs_currentMatchday s1 + 1\<rparr>
         in snd (setTimer False NextMatchdayCallback s2))
      else s)"

definition updateMatch :: "string \<Rightarrow> (match_record \<Rightarrow> match_record) \<Rightarrow> server \<Rightarrow> server" where
  "updateMatch mid f s =
     s\<lparr>gs_matches := map (\<lambda>(k, m). if k = mid then (k, f m) else (k, m)) (gs_matches s)\<rparr>"

definition clearIfSet :: "nat option \<Rightarrow> server \<Rightarrow> server" where
  "clearIfSet timer s = (case timer of None \<Rightarrow> s | Some h \<Rightarrow> clearTimer h (clearTimer h s))"

text \<open>
  The pieces of \<^verbatim>\<open>endGame\<close>, in the order of the source: the three timers are cleared
  (each by \<^verbatim>\<open>clearInterval\<close> and \<^verbatim>\<open>clearTimeout\<close>), the winner is the strictly higher
  scorer (none on equal scores), the final result goes out only to a room that still has a
  socket, and the match record is completed. A tournament match with a winner is reported
  to the bracket (an exception of \<^verbatim>\<open>advanceMatch\<close> is caught and leaves the bracket as
  it was); every other match is filed as a league result.
\<close>

definition clearGameTimers :: "game \<Rightarrow> server \<Rightarrow> server" where
  "clearGameTimers g s =
     clearIfSet (monitoringInterval g) (clearIfSet (loopTimeout g) (clearIfSet (gameTimer g) s))"

definition winnerByScore :: "game \<Rightarrow> string option" where
  "winnerByScore g =
     (if score g (player1 g) > score g (player2 g) then Some (player1 g)
      else if score g (player2 g) > score g (player1 g) then Some (player2 g)
      else None)"

definition emitMatchFinished :: "string \<Rightarrow> string option \<Rightarrow> game \<Rightarrow> server \<Rightarrow> server" where
  "emitMatchFinished reason winner g s =
     (if rooms s (matchId g) > 0
      then emit (MatchFinished (matchId g) winner reason (maxRally g)) s
      else s)"

definition reportToBracket :: "string list \<Rightarrow> string \<Rightarrow> game \<Rightarrow> server \<Rightarrow> server" where
  "reportToBracket playersByByes w g s =
     (case gs_tournamentBracket s of
        None \<Rightarrow> s
      | Some t \<Rightarrow>
          (case advanceMatch playersByByes (matchId g) w
                  (Some [(player1 g, score g (player1 g)), (player2 g, score g (player2 g))]) t of
             Inl _ \<Rightarrow> s
           | Inr (_, t') \<Rightarrow>
               emit (BracketUpdated (matchId g) w) (s\<lparr>gs_tournamentBracket := Some t'\<rparr>)))"

definition fileLeagueResult :: "game \<Rightarrow> server \<Rightarrow> server" where
  "fileLeagueResult g s =
     (case map_of (gs_matches s) (matchId g) of
        None \<Rightarrow> s
      | Some m \<Rightarrow> checkMatchdayComplete (recordLeagueResult (matchId g) m s))"

definition finaliseMatch :: "string list \<Rightarrow> string option \<Rightarrow> real \<Rightarrow> game \<Rightarrow> server \<Rightarrow> server" where
  "finaliseMatch playersByByes winner matchDuration g s =
     (case map_of (gs_matches s) (matchId g) of
        None \<Rightarrow> s
      | Some _ \<Rightarrow>
          (let s1 = updateMatch (matchId g)
                      (\<lambda>m. m\<lparr>finished := True, finalScore := Some (score g),
                              duration := Some matchDuration, mr_maxRally := Some (maxRally g),
                              mr_winner := winner\<rparr>) s
           in case (if isTournamentMatch g then winner else None) of
                Some w \<Rightarrow> reportToBracket playersByByes w g s1
              | None \<Rightarrow> fileLeagueResult g s1))"

text \<open>
  \<^verbatim>\<open>endGame(reason)\<close>. \<open>now\<close> is \<^verbatim>\<open>Date.now()\<close>; \<open>playersByByes\<close> is the outcome of
  the sort inside the bracket, should the bracket advance to a round with a bye. A call on
  a match that is already cleaned up returns at once.
\<close>

definition endGame :: "string \<Rightarrow> real \<Rightarrow> string list \<Rightarrow> game \<Rightarrow> server \<Rightarrow> game \<times> server" where
  "endGame reason now playersByByes g s =
     (if cleanedUp g then (g, s)
      else
        (let g1 = g\<lparr>cleanedUp := True, gameActive := False\<rparr>;
             s1 = clearGameTimers g1 s;
             g2 = g1\<lparr>gameTimer := None, loopTimeout := None, monitoringInterval := None\<rparr>;
             matchDuration = (now - matchStartTime g2) / 1000;
             s2 = s1\<lparr>averageMatchDuration :=
                      (averageMatchDuration s1 * real (gs_completedMatches s1) + matchDuration)
                        / real (gs_completedMatches s1 + 1)\<rparr>;
             s3 = updatePlayerStats now g2 s2;
             winner = winnerByScore g2;
             s4 = emitMatchFinished reason winner g2 s3;
             s5 = s4\<lparr>gs_activeGames := filter (\<lambda>k. k \<noteq> matchId g2) (gs_activeGames s4)\<rparr>;
             s6 = finaliseMatch playersByByes winner matchDuration g2 s5;
             s7 = s6\<lparr>gs_completedMatches := gs_completedMatches s6 + 1\<rparr>
         in (g2, snd (setTimer False (RoomCleanupCallback (matchId g2)) s7))))"

text \<open>
  \<^verbatim>\<open>gameLoop\<close>, one invocation. It stops the loop when the match is not active or cleaned
  up; otherwise it updates and broadcasts as the clock allows and re-arms itself.
\<close>

definition gameLoop :: "real \<Rightarrow> randoms \<Rightarrow> game \<Rightarrow> server \<Rightarrow> game \<times> server" where
  "gameLoop now r g s =
     (if \<not> gameActive g \<or> cleanedUp g then (g\<lparr>loopTimeout := None\<rparr>, s)
      else if gamePausedForGoldenGoal g then
        (let (g1, s1) =
               (if now - lastStateBroadcast g \<ge> broadcastInterval g
                then (g\<lparr>lastStateBroadcast := now\<rparr>, broadcastToAdmin g (broadcastGameState g s))
                else (g, s));
             (h, s2) = setTimer False (LoopCallback (matchId g1)) s1
         in (g1\<lparr>loopTimeout := Some h\<rparr>, s2))
      else if (case lastLoopTime g of None \<Rightarrow> False | Some l \<Rightarrow> l \<noteq> 0 \<and> now - l < 10) then
        (let (h, s1) = setTimer False (LoopCallback (matchId g)) s
         in (g\<lparr>loopTimeout := Some h\<rparr>, s1))
      else
        (let g1 = g\<lparr>lastLoopTime := Some now\<rparr>;
             (g2, s2) =
               (if now - lastFrameTime g1 \<ge> frameInterval g1
                then (let (ga, sa) = updateGame now r g1 s in (ga\<lparr>lastFrameTime := now\<rparr>, sa))
                else (g1, s));
             (g3, s3) =
               (if now - lastStateBroadcast g2 \<ge> broadcastInterval g2
                then (g2\<lparr>lastStateBroadcast := now\<rparr>, broadcastGameState g2 s2)
                else (g2, s2));
             (h, s4) = setTimer False (LoopCallback (matchId g3)) s3
         in (g3\<lparr>loopTimeout := Some h\<rparr>, s4)))"

text \<open>
  \<^verbatim>\<open>triggerGoldenGoalWarning\<close>: the match is paused, the warning goes out, and the entry
  into golden-goal mode is put on a timeout of five seconds.
\<close>

definition triggerGoldenGoalWarning :: "game \<Rightarrow> server \<Rightarrow> game \<times> server" where
  "triggerGoldenGoalWarning g s =
     (let g1 = g\<lparr>goldenGoalWarning := True, gameActive := False, gamePausedForGoldenGoal := True\<rparr>;
          g2 = g1\<lparr>storedBallState := Some (ballX g1, ballY g1, ballSpeedX g1, ballSpeedY g1)\<rparr>;
          s1 = emit (GoldenGoalWarning (matchId g2) GOLDEN_GOAL_WARNING) s
      in (g2, snd (setTimer False (EnterGoldenGoalCallback (matchId g2)) s1)))"

definition enterGoldenGoalMode :: "real \<Rightarrow> randoms \<Rightarrow> game \<Rightarrow> server \<Rightarrow> game \<times> server" where
  "enterGoldenGoalMode now r g s =
     (if goldenGoalMode g then (g, s)
      else
        (let g1 = g\<lparr>goldenGoalMode := True, goldenGoalWarning := False,
                     gamePausedForGoldenGoal := False, timeLeft := 0, gameActive := True\<rparr>;
             g2 = resetBall r g1;
             s1 = s\<lparr>gs_goldenGoalMatches := insert (matchId g2) (gs_goldenGoalMatches s),
                     goldenGoalCount := goldenGoalCount s + 1\<rparr>
         in if loopTimeout g2 = None
            then gameLoop now r (g2\<lparr>lastFrameTime := now, lastStateBroadcast := now\<rparr>) s1
            else (g2, s1)))"

definition handleTimeUp :: "real \<Rightarrow> randoms \<Rightarrow> string list \<Rightarrow> game \<Rightarrow> server \<Rightarrow> game \<times> server" where
  "handleTimeUp now r playersByByes g s =
     (if isTournamentMatch g \<and> score g (player1 g) = score g (player2 g) then
        (if \<not> goldenGoalMode g \<and> \<not> goldenGoalWarning g then enterGoldenGoalMode now r g s
         else (g, s))
      else endGame ''time'' now playersByByes g s)"

text \<open>The body of the one-second interval armed by \<^verbatim>\<open>startTimer\<close>.\<close>

definition timerCallback :: "real \<Rightarrow> randoms \<Rightarrow> string list \<Rightarrow> game \<Rightarrow> server \<Rightarrow> game \<times> server" where
  "timerCallback now r playersByByes g s =
     (if gamePausedForGoldenGoal g then (g, s)
      else
        (let g1 = g\<lparr>timeLeft := timeLeft g - 1\<rparr>;
             (g2, s2) =
               (if isTournamentMatch g1 \<and> timeLeft g1 = GOLDEN_GOAL_WARNING
                   \<and> score g1 (player1 g1) = score g1 (player2 g1)
                   \<and> \<not> goldenGoalWarning g1 \<and> \<not> goldenGoalMode g1
                then triggerGoldenGoalWarning g1 s else (g1, s));
             s3 = (if \<not> goldenGoalWarning g2 \<and> \<not> gamePausedForGoldenGoal g2
                      \<and> (timeLeft g2 mod 5 = 0 \<or> timeLeft g2 \<le> 10 \<or> goldenGoalMode g2)
                   then emit (TimerUpdate (matchId g2) (timeLeft g2) (goldenGoalMode g2)
                                (goldenGoalWarning g2)) s2
                   else s2);
             s4 = broadcastToAdmin g2 s3
         in if timeLeft g2 \<le> 0 \<and> \<not> goldenGoalMode g2 \<and> \<not> goldenGoalWarning g2
            then handleTimeUp now r playersByByes g2 s4 else (g2, s4)))"

definition startTimer :: "game \<Rightarrow> server \<Rightarrow> game \<times> server" where
  "startTimer g s =
     (let (h, s1) = setTimer True (TimerCallback (matchId g)) s in (g\<lparr>gameTimer := Some h\<rparr>, s1))"

text \<open>
  \<^verbatim>\<open>detectPerformanceMode\<close>; \<open>clients\<close> is \<^verbatim>\<open>io.engine.clientsCount\<close>. The second branch
  of the source can never be taken, as here.
\<close>

definition detectPerformanceMode :: "nat \<Rightarrow> game \<Rightarrow> server \<Rightarrow> game" where
  "detectPerformanceMode clients g s =
     (let g1 = (if clients > 10 \<or> length (gs_activeGames s) > 3 then g\<lparr>performanceMode := MEDIUM\<rparr>
                else if clients > 20 \<or> length (gs_activeGames s) > 5 then g\<lparr>performanceMode := LOW\<rparr>
                else g)
      in g1\<lparr>frameInterval := 1000 / fps (performanceMode g1),
            broadcastInterval := (if performanceMode g1 = LOW then 50 else 33)\<rparr>)"

definition start :: "real \<Rightarrow> randoms \<Rightarrow> nat \<Rightarrow> game \<Rightarrow> server \<Rightarrow> game \<times> server" where
  "start now r clients g s =
     (let g1 = resetBall r (g\<lparr>gameActive := True\<rparr>);
          (g2, s2) = startTimer g1 s;
          g3 = detectPerformanceMode clients g2 s2;
          (g4, s4) = gameLoop now r g3 s2
      in (g4, emit (MatchStart (matchId g4)) s4))"

definition monitorConnections :: "game \<Rightarrow> game" where
  "monitorConnections g =
     (if \<not> gameActive g then g
      else if playerLatency g (player1 g) > 300 \<and> playerLatency g (player2 g) > 300
              \<and> performanceMode g \<noteq> LOW
      then g\<lparr>performanceMode := LOW, frameInterval := 1000 / fps LOW, broadcastInterval := 50\<rparr>
      else g)"

text \<open>\<^verbatim>\<open>handlePlayerInput\<close>: the intent and the measured lag of a player of this match.\<close>

definition handlePlayerInput :: "string \<Rightarrow> player_input \<Rightarrow> real \<Rightarrow> real \<Rightarrow> game \<Rightarrow> game" where
  "handlePlayerInput playerName inp clientTimestamp now g =
     (case playerInputs g playerName of
        None \<Rightarrow> g
      | Some _ \<Rightarrow> g\<lparr>playerInputs := (playerInputs g)(playerName \<mapsto> inp),
                     playerLatency := (playerLatency g)(playerName := now - clientTimestamp)\<rparr>)"

section \<open>The server around the matches\<close>

text \<open>
  The game objects by match id, and the global state. A closure keeps its game object
  alive after \<^verbatim>\<open>endGame\<close> has removed it from \<^verbatim>\<open>gameState.activeGames\<close>, so the
  object store is separate from that map.
\<close>

record world =
  objs :: "string \<rightharpoonup> game"
  srv :: server

definition withGame :: "string \<Rightarrow> (game \<Rightarrow> server \<Rightarrow> game \<times> server) \<Rightarrow> world \<Rightarrow> world" where
  "withGame mid f w =
     (case objs w mid of
        None \<Rightarrow> w
      | Some g \<Rightarrow> (let (g', s') = f g (srv w) in w\<lparr>objs := (objs w)(mid \<mapsto> g'), srv := s'\<rparr>))"

text \<open>
  \<^verbatim>\<open>handlePlayerDisconnection(playerName)\<close>: the first active game the player is in is
  ended with reason \<^verbatim>\<open>'disconnection'\<close>; then the disconnection is announced.
\<close>

definition handlePlayerDisconnection :: "string \<Rightarrow> real \<Rightarrow> string list \<Rightarrow> world \<Rightarrow> world" where
  "handlePlayerDisconnection playerName now playersByByes w =
     (let w1 = (case find (\<lambda>mid. case objs w mid of None \<Rightarrow> False
                                   | Some g \<Rightarrow> player1 g = playerName \<or> player2 g = playerName)
                       (gs_activeGames (srv w)) of
                  None \<Rightarrow> w
                | Some mid \<Rightarrow> withGame mid (endGame ''disconnection'' now playersByByes) w)
      in w1\<lparr>srv := emit (PlayerDisconnected playerName) (srv w1)\<rparr>)"

text \<open>
  The \<^verbatim>\<open>disconnect\<close> handler of a socket that carries a player name: before the league has
  started the player is removed; afterwards the player is marked and the forfeit is put on a
  timeout of sixty seconds, remembered under the player's name.
\<close>

definition socketDisconnect :: "string \<Rightarrow> world \<Rightarrow> world" where
  "socketDisconnect playerName w =
     (let s = srv w in
      if map_of (gs_players s) playerName = None then w
      else if \<not> gs_leagueStarted s
      then w\<lparr>srv := s\<lparr>gs_players := filter (\<lambda>(k, _). k \<noteq> playerName) (gs_players s)\<rparr>\<rparr>
      else
        (let s1 = updatePlayer playerName (\<lambda>p. p\<lparr>disconnected := True\<rparr>) s;
             (h, s2) = setTimer False (DisconnectionCallback playerName) s1
         in w\<lparr>srv := s2\<lparr>disconnectionTimeouts := (disconnectionTimeouts s2)(playerName \<mapsto> h)\<rparr>\<rparr>))"

text \<open>The \<^verbatim>\<open>reconnect-player\<close> handler: a disconnected player's timeout is cancelled.\<close>

definition reconnectPlayer :: "string \<Rightarrow> world \<Rightarrow> world" where
  "reconnectPlayer playerName w =
     (let s = srv w in
      case map_of (gs_players s) playerName of
        None \<Rightarrow> w
      | Some p \<Rightarrow>
          if disconnected p then
            (let s1 = (case disconnectionTimeouts s playerName of
                         None \<Rightarrow> s
                       | Some h \<Rightarrow> (clearTimer h s)\<lparr>disconnectionTimeouts :=
                                       (disconnectionTimeouts s)(playerName := None)\<rparr>)
             in w\<lparr>srv := updatePlayer playerName (\<lambda>p. p\<lparr>disconnected := False\<rparr>) s1\<rparr>)
          else w)"

text \<open>
  What a callback does when its timer fires. The loop callback wraps \<^verbatim>\<open>gameLoop\<close> in a
  handler for exceptions, of which this model has none. Starting the next matchday is the
  coordinator's work and outside this model.
\<close>

definition dispatch :: "callback \<Rightarrow> real \<Rightarrow> randoms \<Rightarrow> string list \<Rightarrow> world \<Rightarrow> world" where
  "dispatch cb now r playersByByes w =
     (case cb of
        TimerCallback mid \<Rightarrow> withGame mid (timerCallback now r playersByByes) w
      | MonitorCallback mid \<Rightarrow> withGame mid (\<lambda>g s. (monitorConnections g, s)) w
      | LoopCallback mid \<Rightarrow> withGame mid (gameLoop now r) w
      | EnterGoldenGoalCallback mid \<Rightarrow> withGame mid (enterGoldenGoalMode now r) w
      | EndGameCallback mid reason \<Rightarrow> withGame mid (endGame reason now playersByByes) w
      | RoomCleanupCallback mid \<Rightarrow> w\<lparr>srv := (srv w)\<lparr>rooms := (rooms (srv w))(mid := 0)\<rparr>\<rparr>
      | NextMatchdayCallback \<Rightarrow> w
      | DisconnectionCallback playerName \<Rightarrow> handlePlayerDisconnection playerName now playersByByes w)"

text \<open>The timer with handle \<open>h\<close> fires, if it is armed; a timeout is disarmed by firing.\<close>

definition fire :: "nat \<Rightarrow> real \<Rightarrow> randoms \<Rightarrow> string list \<Rightarrow> world \<Rightarrow> world" where
  "fire h now r playersByByes w =
     (case find (\<lambda>(k, _). k = h) (timers (srv w)) of
        None \<Rightarrow> w
      | Some (_, repeating, cb) \<Rightarrow>
          dispatch cb now r playersByByes
            (if repeating then w else w\<lparr>srv := clearTimer h (srv w)\<rparr>))"

text \<open>
  The coordinator creates a match (its record, its game object, its entry among the active
  games); match ids are not reused while their game object exists.
\<close>

definition createMatch ::
    "string \<Rightarrow> string \<Rightarrow> string \<Rightarrow> bool \<Rightarrow> real \<Rightarrow> int option \<Rightarrow> nat option \<Rightarrow> world \<Rightarrow> world" where
  "createMatch mid p1 p2 tournamentMatch now leagueDuration matchday w =
     (if objs w mid \<noteq> None then w
      else
        (let s = srv w;
             s1 = s\<lparr>gs_matches := filter (\<lambda>(k, _). k \<noteq> mid) (gs_matches s) @
                    [(mid, \<lparr>mr_player1 = p1, mr_player2 = p2, mr_matchday = matchday,
                            mr_isTournamentMatch = tournamentMatch, finished = False,
                            finalScore = None, duration = None, mr_maxRally = None,
                            mr_winner = None\<rparr>)]\<rparr>;
             (g, s2) = newGameInstance mid p1 p2 tournamentMatch now leagueDuration s1
         in w\<lparr>objs := (objs w)(mid \<mapsto> g),
              srv := s2\<lparr>gs_activeGames := filter (\<lambda>k. k \<noteq> mid) (gs_activeGames s2) @ [mid]\<rparr>\<rparr>))"

text \<open>
  Everything that can happen to the server in this model: the coordinator creates or starts
  a match, a timer fires, a player's input arrives, somebody outside the match ends it
  (the sweeps, a reset, the shutdown), sockets join or leave a room, the admin comes or
  goes, a player's socket disconnects or reconnects.
\<close>

datatype occurrence =
  Create string string string bool real "int option" "nat option"
| Start string real randoms nat
| Fire nat real randoms "string list"
| Input string string player_input real real
| End string string real "string list"
| Sockets string nat
| Admin bool
| SocketDisconnect string
| Reconnect string

definition occur :: "occurrence \<Rightarrow> world \<Rightarrow> world" where
  "occur e w =
     (case e of
        Create mid p1 p2 tm now dur md \<Rightarrow> createMatch mid p1 p2 tm now dur md w
      | Start mid now r clients \<Rightarrow> withGame mid (start now r clients) w
      | Fire h now r playersByByes \<Rightarrow> fire h now r playersByByes w
      | Input mid name inp clientTimestamp now \<Rightarrow>
          withGame mid (\<lambda>g s. (handlePlayerInput name inp clientTimestamp now g, s)) w
      | End mid reason now playersByByes \<Rightarrow> withGame mid (endGame reason now playersByByes) w
      | Sockets mid n \<Rightarrow> w\<lparr>srv := (srv w)\<lparr>rooms := (rooms (srv w))(mid := n)\<rparr>\<rparr>
      | Admin b \<Rightarrow> w\<lparr>srv := (srv w)\<lparr>adminConnected := b\<rparr>\<rparr>
      | SocketDisconnect name \<Rightarrow> socketDisconnect name w
      | Reconnect name \<Rightarrow> reconnectPlayer name w)"

definition occurrence_randoms :: "occurrence \<Rightarrow> randoms option" where
  "occurrence_randoms e =
     (case e of Start _ _ r _ \<Rightarrow> Some r | Fire _ _ r _ \<Rightarrow> Some r | _ \<Rightarrow> None)"

text \<open>An occurrence is well-formed when the random numbers it carries lie in \<open>[0, 1)\<close>.\<close>

definition valid_occurrence :: "occurrence \<Rightarrow> bool" where
  "valid_occurrence e = (case occurrence_randoms e of None \<Rightarrow> True | Some r \<Rightarrow> valid_randoms r)"

definition run :: "occurrence list \<Rightarrow> world \<Rightarrow> world" where
  "run es w = foldl (\<lambda>w e. occur e w) w es"

text \<open>The server right after its start: no players, no matches, no timers.\<close>

definition initial_server :: server where
  "initial_server =
     \<lparr>gs_players = [], gs_matches = [], gs_activeGames = [], gs_results = [],
      gs_leagueStarted = False, gs_currentMatchday = 0, gs_completedMatches = 0,
      gs_tournamentBracket = None, gs_goldenGoalMatches = {}, averageMatchDuration = 0,
      totalGoals = 0, totalShots = 0, totalSaves = 0, longestRally = 0, goldenGoalCount = 0,
      disconnectionTimeouts = Map.empty, timers = [], nextHandle = 0, rooms = (\<lambda>_. 0),
      adminConnected = False, emitted = []\<rparr>"

definition initial_world :: world where
  "initial_world = \<lparr>objs = Map.empty, srv = initial_server\<rparr>"

section \<open>Sample values\<close>

text \<open>A fresh player, and a league match Ann against Bob that Ann leads 1:0.\<close>

definition fresh_player :: player where
  "fresh_player =
     \<lparr>p_matches = 0, wins = 0, draws = 0, losses = 0, points = 0, goalsFor = 0,
      goalsAgainst = 0, shots = 0, saves = 0, accuracy = 0, totalPlayTime = 0,
      averageGoalsPerMatch = 0, averageConcededPerMatch = 0, formGuide = [],
      disconnected = False\<rparr>"

definition sample_server :: server where
  "sample_server =
     initial_server\<lparr>gs_players := [(''Ann'', fresh_player), (''Bob'', fresh_player)],
                    gs_leagueStarted := True, rooms := (\<lambda>_. 2)\<rparr>"

definition sample_game :: game where
  "sample_game =
     (fst (newGameInstance ''md1-0-0'' ''Ann'' ''Bob'' False 0 None sample_server))
       \<lparr>gameActive := True, score := (\<lambda>_. 0)(''Ann'' := 1)\<rparr>"

definition sample_world :: world where
  "sample_world =
     (createMatch ''md1-0-0'' ''Ann'' ''Bob'' False 0 None (Some 1)
        \<lparr>objs = Map.empty, srv = sample_server\<rparr>)
       \<lparr>objs := [''md1-0-0'' \<mapsto> sample_game]\<rparr>"

definition zero_randoms :: randoms where
  "zero_randoms = \<lparr>r_wall = 0, r_speed = 0, r_side = 0, r_angle = 0\<rparr>"

text \<open>How often the final result of a match occurs among emissions.\<close>

definition finals :: "string \<Rightarrow> emission list \<Rightarrow> nat" where
  "finals mid es =
     length (filter (\<lambda>e. case e of MatchFinished m _ _ _ \<Rightarrow> m = mid | _ \<Rightarrow> False) es)"

text \<open>
  How often the bracket update of a match, and how often the end of a matchday, occurs
  among emissions.
\<close>

definition bracketReports :: "string \<Rightarrow> emission list \<Rightarrow> nat" where
  "bracketReports mid es =
     length (filter (\<lambda>e. case e of BracketUpdated m _ \<Rightarrow> m = mid | _ \<Rightarrow> False) es)"


section \<open>Non-finite values\<close>



























section \<open>League fixtures\<close>

text \<open>
  A fixture as \<^verbatim>\<open>generateEnhancedFixtures\<close> builds it. Its \<^verbatim>\<open>priority\<close> (a random number)
  and its \<^verbatim>\<open>estimatedDuration\<close> play no part in the pairing and are left out.
\<close>

record fixture =
  home :: string
  away :: string
  fx_round :: nat

text \<open>
  The inner loop: in round \<open>roundNo\<close> (the loop variable \<^verbatim>\<open>round\<close>, counted from 0) slot \<open>m\<close> pairs the player at
  position \<open>m\<close> with the one at the mirrored position; a pairing with \<^verbatim>\<open>'BYE'\<close> is dropped.
\<close>

definition roundMatches :: "nat \<Rightarrow> string list \<Rightarrow> fixture list" where
  "roundMatches roundNo ps =
     concat (map (\<lambda>m. let h = ps ! m; a = ps ! (length ps - 1 - m)
                      in if h \<noteq> ''BYE'' \<and> a \<noteq> ''BYE''
                         then [\<lparr>home = h, away = a, fx_round = roundNo + 1\<rparr>] else [])
                 [0..<length ps div 2])"

text \<open>
  \<^verbatim>\<open>players.splice(1, 0, players.pop())\<close>: the last player moves to position 1. The
  loop that rotates never runs on an empty array.
\<close>

definition rotatePlayers :: "string list \<Rightarrow> string list" where
  "rotatePlayers ps =
     (if ps = [] then [] else take 1 (butlast ps) @ [last ps] @ drop 1 (butlast ps))"

text \<open>The outer loop, with \<open>k\<close> rounds still to go.\<close>

fun firstLeg :: "nat \<Rightarrow> nat \<Rightarrow> string list \<Rightarrow> fixture list list" where
  "firstLeg 0 roundNo ps = []"
| "firstLeg (Suc k) roundNo ps =
     roundMatches roundNo ps # firstLeg k (roundNo + 1) (rotatePlayers ps)"

text \<open>
  \<^verbatim>\<open>generateEnhancedFixtures\<close>, from the keys of the player map in insertion order to the
  value stored in \<^verbatim>\<open>gameState.fixtures\<close>: the first leg, then every round again with home
  and away swapped.
\<close>

definition generateEnhancedFixtures :: "string list \<Rightarrow> fixture list list" where
  "generateEnhancedFixtures names =
     (let players = (if length names mod 2 = 1 then names @ [''BYE''] else names);
          rounds = length players - 1;
          fixtures = firstLeg rounds 0 players;
          returnFixtures =
            map (\<lambda>(roundFixtures, roundIndex).
                   map (\<lambda>m. \<lparr>home = away m, away = home m, fx_round = roundIndex + rounds + 1\<rparr>)
                       roundFixtures)
                (zip fixtures [0..<length fixtures])
      in fixtures @ returnFixtures)"

text \<open>All fixtures of a schedule as pairs (home, away), in order.\<close>

definition pairings :: "fixture list list \<Rightarrow> (string \<times> string) list" where
  "pairings rounds = map (\<lambda>f. (home f, away f)) (concat rounds)"

text \<open>
  Where the player at position \<open>i\<close> of round \<open>r\<close> stood at the start, for \<open>M + 1\<close> players:
  position 0 never moves, the other \<open>M\<close> positions turn by one place per round.
\<close>

definition idx :: "nat \<Rightarrow> nat \<Rightarrow> nat \<Rightarrow> nat" where
  "idx M r i = (case i of 0 \<Rightarrow> 0 | Suc j \<Rightarrow> Suc ((r * (M - 1) + j) mod M))"

text \<open>The two positions of slot \<open>m\<close> come from these two start positions.\<close>

definition slot :: "nat \<Rightarrow> nat \<Rightarrow> nat \<Rightarrow> nat set" where
  "slot M r m = {idx M r m, idx M r (M - m)}"

section \<open>Properties of the tournament bracket\<close>

lemmas config_defs = CANVAS_WIDTH_def CANVAS_HEIGHT_def PADDLE_WIDTH_def PADDLE_HEIGHT_def
  BALL_SIZE_def PLAYER_SPEED_def MIN_BALL_SPEED_def MAX_BALL_SPEED_def SPEED_INCREMENT_def


















lemma find_in_set: "find P xs = Some x \<Longrightarrow> x \<in> set xs"
  by (induction xs) (auto split: if_splits)

lemma winnersOf_Nil [simp]: "winnersOf [] = []"
  by (simp add: winnersOf_def)







lemma count_list_distinct: "distinct xs \<Longrightarrow> x \<in> set xs \<Longrightarrow> count_list xs x = 1"
  by (induction xs) auto








section \<open>The end of a match\<close>

lemma gs_players_emit [simp]: "gs_players (emit e s) = gs_players s"
  by (simp add: emit_def)

lemma gs_players_clearTimer [simp]: "gs_players (clearTimer h s) = gs_players s"
  by (simp add: clearTimer_def)

lemma gs_players_clearIfSet [simp]: "gs_players (clearIfSet t s) = gs_players s"
  by (cases t) (simp_all add: clearIfSet_def)

lemma gs_players_clearGameTimers [simp]: "gs_players (clearGameTimers g s) = gs_players s"
  by (simp add: clearGameTimers_def)

lemma gs_players_setTimer [simp]: "gs_players (snd (setTimer b cb s)) = gs_players s"
  by (simp add: setTimer_def)

lemma gs_players_updateMatch [simp]: "gs_players (updateMatch mid f s) = gs_players s"
  by (simp add: updateMatch_def)

lemma gs_players_recordLeagueResult [simp]: "gs_players (recordLeagueResult mid m s) = gs_players s"
  by (simp add: recordLeagueResult_def)

lemma gs_players_checkMatchdayComplete [simp]: "gs_players (checkMatchdayComplete s) = gs_players s"
  by (simp add: checkMatchdayComplete_def Let_def)

lemma gs_players_emitMatchFinished [simp]: "gs_players (emitMatchFinished reason w g s) = gs_players s"
  by (simp add: emitMatchFinished_def)

lemma gs_players_reportToBracket [simp]: "gs_players (reportToBracket ord w g s) = gs_players s"
  by (simp add: reportToBracket_def split: option.splits sum.splits prod.splits)

lemma gs_players_fileLeagueResult [simp]: "gs_players (fileLeagueResult g s) = gs_players s"
  by (simp add: fileLeagueResult_def split: option.splits)

lemma gs_players_finaliseMatch [simp]: "gs_players (finaliseMatch ord w d g s) = gs_players s"
  by (simp add: finaliseMatch_def Let_def split: option.splits)

lemma map_of_updatePlayer:
  "map_of (gs_players (updatePlayer name f s)) k =
     (if k = name then map_option f (map_of (gs_players s) k) else map_of (gs_players s) k)"
proof -
  have "map_of (map (\<lambda>(k, p). if k = name then (k, f p) else (k, p)) ps) k =
     (if k = name then map_option f (map_of ps k) else map_of ps k)" for ps
    by (induction ps) auto
  then show ?thesis by (simp add: updatePlayer_def)
qed

lemma gs_players_updatePlayerStats_cong:
  "gs_players s = gs_players s' \<Longrightarrow>
   gs_players (updatePlayerStats now g s) = gs_players (updatePlayerStats now g s')"
  by (simp add: updatePlayerStats_def updatePlayer_def)

lemma endGame_players:
  "\<not> cleanedUp g \<Longrightarrow>
   gs_players (snd (endGame reason now playersByByes g s)) =
   gs_players (updatePlayerStats now (g\<lparr>cleanedUp := True, gameActive := False, gameTimer := None,
       loopTimeout := None, monitoringInterval := None\<rparr>) s)"
  by (simp add: endGame_def Let_def) (rule gs_players_updatePlayerStats_cong, simp)

text \<open>
  Claim C10. When a match ends (the first call of \<^verbatim>\<open>endGame\<close>, in league or tournament
  mode), each participant found in the player map has played one match more and falls in
  exactly one of three cases: with the strictly higher score one win and three points more,
  with the strictly lower score one loss more and the same points, on equal scores one draw
  and one point more; the other counters of the three stay as they were.
\<close>

theorem endGame_stats:
  assumes "\<not> cleanedUp g"
    and "player1 g \<noteq> player2 g"
    and "name = player1 g \<and> opp = player2 g \<or> name = player2 g \<and> opp = player1 g"
    and "map_of (gs_players s) name = Some p"
  shows "\<exists>p'. map_of (gs_players (snd (endGame reason now playersByByes g s))) name = Some p'
     \<and> p_matches p' = p_matches p + 1
     \<and> (if score g name > score g opp
         then wins p' = wins p + 1 \<and> points p' = points p + 3
              \<and> draws p' = draws p \<and> losses p' = losses p
         else if score g name < score g opp
         then losses p' = losses p + 1 \<and> points p' = points p
              \<and> wins p' = wins p \<and> draws p' = draws p
         else draws p' = draws p + 1 \<and> points p' = points p + 1
              \<and> wins p' = wins p \<and> losses p' = losses p)"
proof -
  let ?g = "g\<lparr>cleanedUp := True, gameActive := False, gameTimer := None,
       loopTimeout := None, monitoringInterval := None\<rparr>"
  have "map_of (gs_players (snd (endGame reason now playersByByes g s))) name
          = Some (statsForPlayer now ?g name p)"
    using assms by (auto simp: endGame_players updatePlayerStats_def map_of_updatePlayer)
  moreover have "score ?g = score g" "player1 ?g = player1 g" "player2 ?g = player2 g" by simp_all
  ultimately show ?thesis
    using assms(2,3) by (auto simp: statsForPlayer_def Let_def)
qed

theorem endGame_stats_witness:
  "\<not> cleanedUp sample_game \<and> player1 sample_game \<noteq> player2 sample_game
   \<and> map_of (gs_players (srv sample_world)) ''Ann'' = Some fresh_player
   \<and> score sample_game ''Ann'' > score sample_game ''Bob''
   \<and> (\<exists>p'. map_of (gs_players (snd (endGame ''time'' 1000 [] sample_game (srv sample_world)))) ''Ann'' = Some p'
         \<and> p_matches p' = 1 \<and> wins p' = 1 \<and> points p' = 3 \<and> draws p' = 0 \<and> losses p' = 0)"
proof -
  have g: "\<not> cleanedUp sample_game" "player1 sample_game = ''Ann''" "player2 sample_game = ''Bob''"
    "score sample_game ''Ann'' = 1" "score sample_game ''Bob'' = 0"
    by code_simp+
  have p: "map_of (gs_players (srv sample_world)) ''Ann'' = Some fresh_player"
    by (simp add: sample_world_def sample_server_def createMatch_def newGameInstance_def
        setTimer_def Let_def)
  have f: "p_matches fresh_player = 0" "wins fresh_player = 0" "points fresh_player = 0"
    "draws fresh_player = 0" "losses fresh_player = 0"
    by (simp_all add: fresh_player_def)
  from endGame_stats[of sample_game "''Ann''" "''Bob''" "srv sample_world" fresh_player
      "''time''" 1000 "[]"] g p f
  show ?thesis by auto
qed


lemma emitted_clearIfSet [simp]: "emitted (clearIfSet t s) = emitted s"
  by (cases t) (simp_all add: clearIfSet_def clearTimer_def)

lemma emitted_clearGameTimers [simp]: "emitted (clearGameTimers g s) = emitted s"
  by (simp add: clearGameTimers_def)

lemma rooms_clearIfSet [simp]: "rooms (clearIfSet t s) = rooms s"
  by (cases t) (simp_all add: clearIfSet_def clearTimer_def)

lemma rooms_clearGameTimers [simp]: "rooms (clearGameTimers g s) = rooms s"
  by (simp add: clearGameTimers_def)

lemma emitted_updatePlayerStats [simp]: "emitted (updatePlayerStats now g s) = emitted s"
  by (simp add: updatePlayerStats_def updatePlayer_def)

lemma rooms_updatePlayerStats [simp]: "rooms (updatePlayerStats now g s) = rooms s"
  by (simp add: updatePlayerStats_def updatePlayer_def)

lemma finals_append [simp]: "finals mid (xs @ ys) = finals mid xs + finals mid ys"
  by (simp add: finals_def)

lemma finals_emit: "finals mid (emitted (emit e s)) =
    finals mid (emitted s) + (case e of MatchFinished m _ _ _ \<Rightarrow> if m = mid then 1 else 0 | _ \<Rightarrow> 0)"
  by (cases e) (simp_all add: emit_def finals_def)

lemma finals_setTimer [simp]: "finals mid (emitted (snd (setTimer b cb s))) = finals mid (emitted s)"
  by (simp add: setTimer_def)

lemma finals_finaliseMatch [simp]:
  "finals mid (emitted (finaliseMatch ord w d g s)) = finals mid (emitted s)"
  by (simp add: finaliseMatch_def Let_def reportToBracket_def fileLeagueResult_def updateMatch_def
      recordLeagueResult_def checkMatchdayComplete_def finals_emit
      split: option.splits sum.splits prod.splits)

lemma finals_endGame:
  "\<not> cleanedUp g \<Longrightarrow>
   finals (matchId g) (emitted (snd (endGame reason now ord g s))) =
   finals (matchId g) (emitted s) + (if rooms s (matchId g) > 0 then 1 else 0)"
  by (simp add: endGame_def Let_def emitMatchFinished_def finals_emit)


lemma completed_clearIfSet [simp]: "gs_completedMatches (clearIfSet t s) = gs_completedMatches s"
  by (cases t) (simp_all add: clearIfSet_def clearTimer_def)



lemma nextHandle_clearIfSet [simp]: "nextHandle (clearIfSet t s) = nextHandle s"
  by (cases t) (simp_all add: clearIfSet_def clearTimer_def)




lemma map_of_updateMatch:
  "map_of (gs_matches (updateMatch mid f s)) k =
     (if k = mid then map_option f (map_of (gs_matches s) k) else map_of (gs_matches s) k)"
proof -
  have "map_of (map (\<lambda>(k, m). if k = mid then (k, f m) else (k, m)) ms) k =
     (if k = mid then map_option f (map_of ms k) else map_of ms k)" for ms
    by (induction ms) auto
  then show ?thesis by (simp add: updateMatch_def)
qed

lemma gs_matches_reportToBracket [simp]: "gs_matches (reportToBracket ord w g s) = gs_matches s"
  by (simp add: reportToBracket_def emit_def split: option.splits sum.splits prod.splits)

lemma gs_matches_fileLeagueResult [simp]: "gs_matches (fileLeagueResult g s) = gs_matches s"
  by (simp add: fileLeagueResult_def recordLeagueResult_def checkMatchdayComplete_def emit_def
      setTimer_def Let_def split: option.splits)

lemma gs_matches_clearIfSet [simp]: "gs_matches (clearIfSet t s) = gs_matches s"
  by (cases t) (simp_all add: clearIfSet_def clearTimer_def)

lemma map_of_finaliseMatch:
  "mid = matchId g \<Longrightarrow>
   map_of (gs_matches (finaliseMatch ord w d g s)) mid =
   map_option (\<lambda>m. m\<lparr>finished := True, finalScore := Some (score g), duration := Some d,
      mr_maxRally := Some (maxRally g), mr_winner := w\<rparr>) (map_of (gs_matches s) mid)"
  by (simp add: finaliseMatch_def Let_def map_of_updateMatch split: option.splits)

lemma matches_endGame:
  "\<not> cleanedUp g \<Longrightarrow>
   map_of (gs_matches (snd (endGame reason now ord g s))) (matchId g) =
   map_option (\<lambda>m. m\<lparr>finished := True, finalScore := Some (score g),
        duration := Some ((now - matchStartTime g) / 1000),
        mr_maxRally := Some (maxRally g), mr_winner := winnerByScore g\<rparr>)
     (map_of (gs_matches s) (matchId g))"
  by (simp add: endGame_def Let_def map_of_finaliseMatch setTimer_def emitMatchFinished_def emit_def
      updatePlayerStats_def updatePlayer_def clearGameTimers_def winnerByScore_def)










lemma recordLeagueResult_frame:
  "gs_currentMatchday (recordLeagueResult mid m s) = gs_currentMatchday s"
  "gs_matches (recordLeagueResult mid m s) = gs_matches s"
  "emitted (recordLeagueResult mid m s) = emitted s"
  "gs_tournamentBracket (recordLeagueResult mid m s) = gs_tournamentBracket s"
  by (simp_all add: recordLeagueResult_def)

lemma checkMatchdayComplete_frame:
  "gs_results (checkMatchdayComplete s) = gs_results s"
  "gs_tournamentBracket (checkMatchdayComplete s) = gs_tournamentBracket s"
  "bracketReports mid (emitted (checkMatchdayComplete s)) = bracketReports mid (emitted s)"
  "gs_matches (checkMatchdayComplete s) = gs_matches s"
  by (simp_all add: checkMatchdayComplete_def Let_def emit_def setTimer_def bracketReports_def)



lemma finaliseMatch_cases:
  "finaliseMatch ord w d g s =
     (let f = (\<lambda>m. m\<lparr>finished := True, finalScore := Some (score g), duration := Some d,
                       mr_maxRally := Some (maxRally g), mr_winner := w\<rparr>);
          s1 = updateMatch (matchId g) f s in
      case map_of (gs_matches s) (matchId g) of
        None \<Rightarrow> s
      | Some m \<Rightarrow>
          if isTournamentMatch g \<and> w \<noteq> None then reportToBracket ord (the w) g s1
          else checkMatchdayComplete (recordLeagueResult (matchId g) (f m) s1))"
  by (cases "map_of (gs_matches s) (matchId g)"; cases w)
     (simp_all add: finaliseMatch_def Let_def fileLeagueResult_def map_of_updateMatch)





lemma gs_matches_finaliseMatch:
  "gs_matches (finaliseMatch ord w d g s) =
     gs_matches (updateMatch (matchId g) (\<lambda>m. m\<lparr>finished := True,
           finalScore := Some (score g), duration := Some d, mr_maxRally := Some (maxRally g),
           mr_winner := w\<rparr>) s) \<or> map_of (gs_matches s) (matchId g) = None"
  by (cases "map_of (gs_matches s) (matchId g)")
     (simp_all add: finaliseMatch_cases Let_def checkMatchdayComplete_frame
        recordLeagueResult_frame)






lemma sample_game_facts:
  "\<not> cleanedUp sample_game" "gameTimer sample_game = None" "loopTimeout sample_game = None"
  "monitoringInterval sample_game = Some 0" "matchId sample_game = ''md1-0-0''"
  "player1 sample_game = ''Ann''" "player2 sample_game = ''Bob''"
  "score sample_game ''Ann'' = 1" "score sample_game ''Bob'' = 0"
  by (simp_all add: sample_game_def newGameInstance_def setTimer_def sample_server_def
      initial_server_def)

lemma sample_world_facts:
  "nextHandle (srv sample_world) = 1" "rooms (srv sample_world) ''md1-0-0'' = 2"
  "gs_completedMatches (srv sample_world) = 0" "emitted (srv sample_world) = []"
  "gs_activeGames (srv sample_world) = [''md1-0-0'']"
  "objs sample_world ''md1-0-0'' = Some sample_game"
  by (simp_all add: sample_world_def createMatch_def newGameInstance_def setTimer_def
      sample_server_def initial_server_def Let_def)




lemma endGame_flags:
  "\<not> cleanedUp g \<Longrightarrow> fst (endGame reason now ord g s) =
     g\<lparr>cleanedUp := True, gameActive := False, gameTimer := None, loopTimeout := None,
       monitoringInterval := None\<rparr>"
  by (simp add: endGame_def Let_def)

lemma activeGames_finaliseMatch [simp]:
  "gs_activeGames (finaliseMatch ord w d g s) = gs_activeGames s"
  by (simp add: finaliseMatch_def Let_def reportToBracket_def fileLeagueResult_def updateMatch_def
      recordLeagueResult_def checkMatchdayComplete_def emit_def setTimer_def
      split: option.splits sum.splits prod.splits)

lemma activeGames_endGame:
  "\<not> cleanedUp g \<Longrightarrow> gs_activeGames (snd (endGame reason now ord g s)) =
     filter (\<lambda>k. k \<noteq> matchId g) (gs_activeGames s)"
  by (simp add: endGame_def Let_def setTimer_def emitMatchFinished_def emit_def
      updatePlayerStats_def updatePlayer_def clearGameTimers_def clearIfSet_def clearTimer_def
      split: option.splits)

lemma emitted_finaliseMatch:
  "\<exists>ys. emitted (finaliseMatch ord w d g s) = emitted s @ ys"
  by (simp add: finaliseMatch_def Let_def reportToBracket_def fileLeagueResult_def updateMatch_def
      recordLeagueResult_def checkMatchdayComplete_def emit_def setTimer_def
      split: option.splits sum.splits prod.splits)

lemma final_emitted_endGame:
  assumes "\<not> cleanedUp g" and "rooms s (matchId g) > 0"
  shows "MatchFinished (matchId g) (winnerByScore g) reason (maxRally g)
           \<in> set (emitted (snd (endGame reason now ord g s)))"
proof -
  let ?g2 = "g\<lparr>cleanedUp := True, gameActive := False, gameTimer := None, loopTimeout := None,
       monitoringInterval := None\<rparr>"
  define s5 where "s5 = (let s1 = clearGameTimers (g\<lparr>cleanedUp := True, gameActive := False\<rparr>) s;
      d = (now - matchStartTime ?g2) / 1000;
      s2 = s1\<lparr>averageMatchDuration := (averageMatchDuration s1 * real (gs_completedMatches s1) + d)
                        / real (gs_completedMatches s1 + 1)\<rparr>;
      s3 = updatePlayerStats now ?g2 s2;
      s4 = emitMatchFinished reason (winnerByScore ?g2) ?g2 s3
      in s4\<lparr>gs_activeGames := filter (\<lambda>k. k \<noteq> matchId ?g2) (gs_activeGames s4)\<rparr>)"
  have w: "winnerByScore ?g2 = winnerByScore g" by (simp add: winnerByScore_def)
  have e5: "MatchFinished (matchId g) (winnerByScore g) reason (maxRally g) \<in> set (emitted s5)"
    using assms(2) by (simp add: s5_def Let_def emitMatchFinished_def emit_def w)
  obtain ys where "emitted (finaliseMatch ord (winnerByScore ?g2)
       ((now - matchStartTime ?g2) / 1000) ?g2 s5) = emitted s5 @ ys"
    using emitted_finaliseMatch by blast
  moreover have "emitted (snd (endGame reason now ord g s)) =
     emitted (finaliseMatch ord (winnerByScore ?g2) ((now - matchStartTime ?g2) / 1000) ?g2 s5)"
    using assms(1) by (simp add: endGame_def Let_def s5_def setTimer_def)
  ultimately show ?thesis using e5 by simp
qed

lemma fire_disconnection:
  assumes "find (\<lambda>(k, _). k = h) (timers (srv w)) = Some (h, False, DisconnectionCallback playerName)"
    and "find (\<lambda>mid. case objs w mid of None \<Rightarrow> False
                       | Some g \<Rightarrow> player1 g = playerName \<or> player2 g = playerName)
           (gs_activeGames (srv w)) = Some mid"
    and "objs w mid = Some g"
  shows "fire h now r playersByByes w =
      w\<lparr>objs := (objs w)(mid \<mapsto> fst (endGame ''disconnection'' now playersByByes g (clearTimer h (srv w)))),
        srv := emit (PlayerDisconnected playerName)
                 (snd (endGame ''disconnection'' now playersByByes g (clearTimer h (srv w))))\<rparr>"
proof -
  let ?w0 = "w\<lparr>srv := clearTimer h (srv w)\<rparr>"
  have s0: "gs_activeGames (clearTimer h (srv w)) = gs_activeGames (srv w)"
    by (simp add: clearTimer_def)
  have f: "fire h now r playersByByes w = handlePlayerDisconnection playerName now playersByByes ?w0"
    using assms(1) by (simp add: fire_def dispatch_def)
  have "handlePlayerDisconnection playerName now playersByByes ?w0 =
      (let w1 = withGame mid (endGame ''disconnection'' now playersByByes) ?w0
       in w1\<lparr>srv := emit (PlayerDisconnected playerName) (srv w1)\<rparr>)"
    using assms(2) by (simp add: handlePlayerDisconnection_def s0)
  also have "withGame mid (endGame ''disconnection'' now playersByByes) ?w0 =
      ?w0\<lparr>objs := (objs w)(mid \<mapsto> fst (endGame ''disconnection'' now playersByByes g (clearTimer h (srv w)))),
          srv := snd (endGame ''disconnection'' now playersByByes g (clearTimer h (srv w)))\<rparr>"
    using assms(3) by (simp add: withGame_def split: prod.splits)
  finally show ?thesis using f by (simp add: Let_def)
qed

text \<open>
  Claim C3, amended. When the grace timer of a disconnected player fires (it was not
  cancelled by a reconnect), the first active match the player is in, if it is not yet
  cleaned up, is ended: its game is latched as cleaned up and inactive, it leaves the
  active games, its record is completed, and the final result with reason
  \<^verbatim>\<open>'disconnection'\<close> goes to its room if a socket is left there. The winner recorded and
  announced is the strictly higher scorer at that moment, whoever disconnected, and nobody
  on equal scores.
\<close>

theorem grace_timer_ends_match:
  assumes "find (\<lambda>(k, _). k = h) (timers (srv w)) = Some (h, False, DisconnectionCallback playerName)"
    and "find (\<lambda>mid. case objs w mid of None \<Rightarrow> False
                       | Some g \<Rightarrow> player1 g = playerName \<or> player2 g = playerName)
           (gs_activeGames (srv w)) = Some mid"
    and "objs w mid = Some g" and "matchId g = mid" and "\<not> cleanedUp g"
  shows "let w' = fire h now r playersByByes w in
     (\<exists>g'. objs w' mid = Some g' \<and> cleanedUp g' \<and> \<not> gameActive g')
     \<and> mid \<notin> set (gs_activeGames (srv w'))
     \<and> map_of (gs_matches (srv w')) mid
         = map_option (\<lambda>m. m\<lparr>finished := True, finalScore := Some (score g),
                              duration := Some ((now - matchStartTime g) / 1000),
                              mr_maxRally := Some (maxRally g), mr_winner := winnerByScore g\<rparr>)
             (map_of (gs_matches (srv w)) mid)
     \<and> (if rooms (srv w) mid > 0
         then MatchFinished mid (winnerByScore g) ''disconnection'' (maxRally g)
                \<in> set (emitted (srv w'))
         else finals mid (emitted (srv w')) = finals mid (emitted (srv w)))"
proof -
  let ?w0 = "w\<lparr>srv := clearTimer h (srv w)\<rparr>"
  let ?s0 = "clearTimer h (srv w)"
  let ?E = "endGame ''disconnection'' now playersByByes g ?s0"
  have s0: "gs_activeGames ?s0 = gs_activeGames (srv w)" "gs_matches ?s0 = gs_matches (srv w)"
    "rooms ?s0 = rooms (srv w)" "emitted ?s0 = emitted (srv w)"
    by (simp_all add: clearTimer_def)
  have w': "fire h now r playersByByes w =
      w\<lparr>objs := (objs w)(mid \<mapsto> fst ?E), srv := emit (PlayerDisconnected playerName) (snd ?E)\<rparr>"
    using assms(1,2,3) by (rule fire_disconnection)
  have 1: "cleanedUp (fst ?E) \<and> \<not> gameActive (fst ?E)"
    using assms(5) by (simp add: endGame_flags)
  have 2: "mid \<notin> set (gs_activeGames (snd ?E))"
    using assms(4,5) by (simp add: activeGames_endGame)
  have 3: "map_of (gs_matches (snd ?E)) mid
         = map_option (\<lambda>m. m\<lparr>finished := True, finalScore := Some (score g),
                              duration := Some ((now - matchStartTime g) / 1000),
                              mr_maxRally := Some (maxRally g), mr_winner := winnerByScore g\<rparr>)
             (map_of (gs_matches (srv w)) mid)"
    using matches_endGame[OF assms(5), of "''disconnection''" now playersByByes ?s0] assms(4)
    by (simp add: s0)
  have 4: "MatchFinished mid (winnerByScore g) ''disconnection'' (maxRally g) \<in> set (emitted (snd ?E))"
    if "rooms (srv w) mid > 0"
    using final_emitted_endGame[OF assms(5), of ?s0 "''disconnection''" now playersByByes] that assms(4)
    by (simp add: s0)
  have 5: "finals mid (emitted (snd ?E)) = finals mid (emitted (srv w))"
    if "\<not> rooms (srv w) mid > 0"
    using finals_endGame[OF assms(5), of "''disconnection''" now playersByByes ?s0] that assms(4)
    by (simp add: s0)
  show ?thesis
    unfolding w' Let_def using 1 2 3 4 5 by (simp add: emit_def finals_def)
qed


lemma objs_socketDisconnect [simp]: "objs (socketDisconnect name w) = objs w"
  by (simp add: socketDisconnect_def Let_def split: prod.splits)

text \<open>Ann leads the sample match 1:0, disconnects, and her grace timer fires.\<close>

theorem grace_timer_ends_match_witness:
  "(let w = socketDisconnect ''Ann'' sample_world; w' = fire 1 60000 zero_randoms [] w in
     find (\<lambda>(k, _). k = 1) (timers (srv w)) = Some (1, False, DisconnectionCallback ''Ann'')
     \<and> objs w ''md1-0-0'' = Some sample_game \<and> \<not> cleanedUp sample_game
     \<and> (\<exists>g'. objs w' ''md1-0-0'' = Some g' \<and> cleanedUp g' \<and> \<not> gameActive g')
     \<and> ''md1-0-0'' \<notin> set (gs_activeGames (srv w'))
     \<and> MatchFinished ''md1-0-0'' (Some ''Ann'') ''disconnection'' 0 \<in> set (emitted (srv w')))"
proof -
  define w where "w = socketDisconnect ''Ann'' sample_world"
  have t: "find (\<lambda>(k, _). k = 1) (timers (srv w)) = Some (1, False, DisconnectionCallback ''Ann'')"
    unfolding w_def by code_simp
  have a: "find (\<lambda>mid. case objs w mid of None \<Rightarrow> False
                       | Some g \<Rightarrow> player1 g = ''Ann'' \<or> player2 g = ''Ann'')
           (gs_activeGames (srv w)) = Some ''md1-0-0''"
    unfolding w_def by code_simp
  have o: "objs w ''md1-0-0'' = Some sample_game"
    by (simp add: w_def sample_world_facts)
  have r: "rooms (srv w) ''md1-0-0'' > 0" unfolding w_def by code_simp
  have ws: "winnerByScore sample_game = Some ''Ann''" "maxRally sample_game = 0"
    by code_simp+
  from grace_timer_ends_match[OF t a o sample_game_facts(5) sample_game_facts(1),
      of 60000 zero_randoms "[]"] r ws t o sample_game_facts(1)
  show ?thesis by (simp add: Let_def w_def)
qed

text \<open>
  Claim C3 as stated fails in the same scenario: Ann is the player who disconnected and
  Bob stayed connected, yet the match record names Ann, who led 1:0, as the winner.
\<close>

theorem disconnected_leader_wins_counterexample:
  "(let w = socketDisconnect ''Ann'' sample_world; w' = fire 1 60000 zero_randoms [] w in
     map_option disconnected (map_of (gs_players (srv w)) ''Ann'') = Some True
     \<and> map_option disconnected (map_of (gs_players (srv w)) ''Bob'') = Some False
     \<and> map_option mr_winner (map_of (gs_matches (srv w)) ''md1-0-0'') = Some None
     \<and> map_option mr_winner (map_of (gs_matches (srv w')) ''md1-0-0'') = Some (Some ''Ann''))"
proof -
  define w where "w = socketDisconnect ''Ann'' sample_world"
  have t: "find (\<lambda>(k, _). k = 1) (timers (srv w)) = Some (1, False, DisconnectionCallback ''Ann'')"
    unfolding w_def by code_simp
  have a: "find (\<lambda>mid. case objs w mid of None \<Rightarrow> False
                       | Some g \<Rightarrow> player1 g = ''Ann'' \<or> player2 g = ''Ann'')
           (gs_activeGames (srv w)) = Some ''md1-0-0''"
    unfolding w_def by code_simp
  have o: "objs w ''md1-0-0'' = Some sample_game"
    by (simp add: w_def sample_world_facts)
  have d: "map_option disconnected (map_of (gs_players (srv w)) ''Ann'') = Some True"
    "map_option disconnected (map_of (gs_players (srv w)) ''Bob'') = Some False"
    "map_option mr_winner (map_of (gs_matches (srv w)) ''md1-0-0'') = Some None"
    unfolding w_def by code_simp+
  have ws: "winnerByScore sample_game = Some ''Ann''" by code_simp
  have "map_of (gs_matches (srv (fire 1 60000 zero_randoms [] w))) ''md1-0-0'' =
      map_option (\<lambda>m. m\<lparr>finished := True, finalScore := Some (score sample_game),
                              duration := Some ((60000 - matchStartTime sample_game) / 1000),
                              mr_maxRally := Some (maxRally sample_game), mr_winner := Some ''Ann''\<rparr>)
             (map_of (gs_matches (clearTimer 1 (srv w))) ''md1-0-0'')"
    unfolding fire_disconnection[OF t a o]
    using matches_endGame[OF sample_game_facts(1), of "''disconnection''" 60000 "[]" "clearTimer 1 (srv w)"]
    by (simp add: emit_def sample_game_facts ws)
  moreover have "gs_matches (clearTimer 1 (srv w)) = gs_matches (srv w)" by (simp add: clearTimer_def)
  ultimately have "map_option mr_winner (map_of (gs_matches (srv (fire 1 60000 zero_randoms [] w))) ''md1-0-0'')
     = Some (Some ''Ann'')"
    using d(3) by (cases "map_of (gs_matches (srv w)) ''md1-0-0''") simp_all
  then show ?thesis using d by (simp add: Let_def w_def)
qed

section \<open>Goals\<close>

lemma resetBall_live:
  assumes "gameActive g" and "valid_randoms r"
  shows "ballX (resetBall r g) = 442.5" and "ballY (resetBall r g) = 242.5"
    and "rallyCount (resetBall r g) = 0"
    and "4 \<le> \<bar>ballSpeedX (resetBall r g)\<bar>" and "\<bar>ballSpeedX (resetBall r g)\<bar> \<le> 6"
    and "\<bar>ballSpeedY (resetBall r g)\<bar> \<le> \<bar>ballSpeedX (resetBall r g)\<bar> / 2"
proof -
  let ?sp = "MIN_BALL_SPEED + r_speed r * 2"
  have sp: "4 \<le> ?sp" "?sp \<le> 6" using assms(2) by (simp_all add: valid_randoms_def config_defs)
  have vx: "\<bar>ballSpeedX (resetBall r g)\<bar> = ?sp"
    using assms(1) sp by (simp add: resetBall_def Let_def)
  have vy: "ballSpeedY (resetBall r g) = (r_angle r - 0.5) * ?sp"
    using assms(1) by (simp add: resetBall_def Let_def)
  show "ballX (resetBall r g) = 442.5" "ballY (resetBall r g) = 242.5"
    "rallyCount (resetBall r g) = 0"
    using assms(1) by (simp_all add: resetBall_def Let_def config_defs)
  show "4 \<le> \<bar>ballSpeedX (resetBall r g)\<bar>" "\<bar>ballSpeedX (resetBall r g)\<bar> \<le> 6"
    using vx sp by simp_all
  have "\<bar>r_angle r - 0.5\<bar> \<le> 1 / 2" using assms(2) unfolding valid_randoms_def by linarith
  then have "\<bar>r_angle r - 0.5\<bar> * ?sp \<le> 1 / 2 * ?sp"
    using sp by (intro mult_right_mono) simp_all
  then show "\<bar>ballSpeedY (resetBall r g)\<bar> \<le> \<bar>ballSpeedX (resetBall r g)\<bar> / 2"
    using sp by (simp add: vx vy abs_mult)
qed

lemma handleGoal_game:
  "fst (handleGoal r scorer opponent g s) =
     resetBall r (g\<lparr>score := (score g)(scorer := score g scorer + 1)\<rparr>)"
  by (simp add: handleGoal_def Let_def)

lemma handleGoal_emitted:
  "emitted (snd (handleGoal r scorer opponent g s)) = emitted s @
     [GoalScored (matchId g) scorer
        (if scorer = player1 g then score g scorer + 1 else score g (player1 g))
        (if scorer = player2 g then score g scorer + 1 else score g (player2 g))
        (rallyCount (resetBall r g)) (timeLeft g) (goldenGoalMode g)]"
  by (simp add: handleGoal_def Let_def emit_def setTimer_def updatePlayer_def resetBall_def)

text \<open>
  Claim C4, amended. A goal is handled only inside a tick, and a tick runs only while the
  match is active (\<open>gameLoop_inactive\<close>). For every goal in an active match, in overtime or
  not, \<^verbatim>\<open>handleGoal\<close> counts the goal, puts the ball at the exact centre, clears the rally
  count and serves the ball again: the horizontal speed is at least 4 and at most 6 (so not
  zero) and the vertical speed at most half of it. The goal event is emitted after that
  reset, as the last emission, and carries rally length 0.
\<close>

theorem goal_resets_and_serves:
  assumes "gameActive g" and "valid_randoms r"
  shows "let (g', s') = handleGoal r scorer opponent g s in
     score g' scorer = score g scorer + 1
     \<and> ballX g' = CANVAS_WIDTH / 2 - BALL_SIZE / 2 \<and> ballY g' = CANVAS_HEIGHT / 2 - BALL_SIZE / 2
     \<and> rallyCount g' = 0
     \<and> 4 \<le> \<bar>ballSpeedX g'\<bar> \<and> \<bar>ballSpeedX g'\<bar> \<le> 6 \<and> ballSpeedX g' \<noteq> 0
     \<and> \<bar>ballSpeedY g'\<bar> \<le> \<bar>ballSpeedX g'\<bar> / 2
     \<and> goldenGoalMode g' = goldenGoalMode g
     \<and> (\<exists>a b. emitted s' = emitted s @
            [GoalScored (matchId g) scorer a b 0 (timeLeft g) (goldenGoalMode g)])"
proof -
  let ?g1 = "g\<lparr>score := (score g)(scorer := score g scorer + 1)\<rparr>"
  have a: "gameActive ?g1" using assms(1) by simp
  note R = resetBall_live[OF a assms(2)]
  have r0: "rallyCount (resetBall r g) = 0" using resetBall_live(3)[OF assms] .
  have sc: "score (resetBall r ?g1) scorer = score g scorer + 1"
    "goldenGoalMode (resetBall r ?g1) = goldenGoalMode g"
    by (simp_all add: resetBall_def Let_def)
  have nz: "ballSpeedX (resetBall r ?g1) \<noteq> 0" using R(4) by auto
  show ?thesis
    using R nz sc by (simp add: split_beta handleGoal_game handleGoal_emitted r0 config_defs)
qed


lemma gameLoop_inactive:
  "\<not> gameActive g \<Longrightarrow> gameLoop now r g s = (g\<lparr>loopTimeout := None\<rparr>, s)"
  by (simp add: gameLoop_def)

lemma valid_zero_randoms: "valid_randoms zero_randoms"
  by (simp add: valid_randoms_def zero_randoms_def)

lemma sample_game_live: "gameActive sample_game" "\<not> goldenGoalMode sample_game"
  "timeLeft sample_game = 180"
  by (simp_all add: sample_game_def newGameInstance_def setTimer_def DEFAULT_MATCH_DURATION_def)

text \<open>Ann scores her second goal in the sample match.\<close>

theorem goal_resets_and_serves_witness:
  "gameActive sample_game \<and> valid_randoms zero_randoms
   \<and> (let (g', s') = handleGoal zero_randoms ''Ann'' ''Bob'' sample_game (srv sample_world) in
        score g' ''Ann'' = 2 \<and> ballX g' = 442.5 \<and> ballY g' = 242.5 \<and> rallyCount g' = 0
        \<and> 4 \<le> \<bar>ballSpeedX g'\<bar> \<and> ballSpeedX g' \<noteq> 0)"
  using goal_resets_and_serves[OF sample_game_live(1) valid_zero_randoms,
      of "''Ann''" "''Bob''" "srv sample_world"]
  by (simp add: sample_game_live valid_zero_randoms sample_game_facts split_beta config_defs)

text \<open>
  Claim C4 as stated fails outside overtime: the sample match is active and not in
  golden-goal mode, and after Ann's goal the ball leaves the centre with velocity
  \<open>(-4, -2)\<close>, not with zero velocity.
\<close>

theorem goal_in_regulation_counterexample:
  "gameActive sample_game \<and> \<not> goldenGoalMode sample_game
   \<and> (let (g', s') = handleGoal zero_randoms ''Ann'' ''Bob'' sample_game (srv sample_world) in
        \<not> goldenGoalMode g' \<and> ballSpeedX g' = - 4 \<and> ballSpeedY g' = - 2)"
  by (simp add: sample_game_live split_beta handleGoal_game resetBall_def Let_def zero_randoms_def
      config_defs)

section \<open>Non-finite ball speed\<close>












section \<open>The double round robin\<close>

lemma rotatePlayers_length: "length (rotatePlayers qs) = length qs"
  by (cases qs rule: rev_cases) (auto simp: rotatePlayers_def)

lemma rotatePlayers_nth:
  assumes "2 \<le> length qs"
  shows "rotatePlayers qs ! 0 = qs ! 0"
    and "i < length qs - 1 \<Longrightarrow>
           rotatePlayers qs ! Suc i = qs ! Suc ((length qs - 2 + i) mod (length qs - 1))"
proof -
  obtain bs l where qs: "qs = bs @ [l]" using assms by (cases qs rule: rev_cases) auto
  then obtain b bs' where bs: "bs = b # bs'" using assms by (cases bs) auto
  show "rotatePlayers qs ! 0 = qs ! 0" by (simp add: rotatePlayers_def qs bs)
  show "rotatePlayers qs ! Suc i = qs ! Suc ((length qs - 2 + i) mod (length qs - 1))"
    if "i < length qs - 1"
  proof (cases i)
    case 0
    then show ?thesis by (simp add: rotatePlayers_def qs bs nth_append)
  next
    case (Suc j)
    then have j: "j < length bs'" using that by (simp add: qs bs)
    have "(length bs' + Suc j) mod Suc (length bs') = (Suc (length bs') + j) mod Suc (length bs')"
      by simp
    also have "\<dots> = j mod Suc (length bs')" by (rule mod_add_self1)
    also have "\<dots> = j" using j by simp
    finally show ?thesis
      using j by (simp add: rotatePlayers_def qs bs Suc nth_append)
  qed
qed


lemma rot_pow:
  assumes "length ps = Suc M" and "0 < M"
  shows "length ((rotatePlayers ^^ r) ps) = Suc M
     \<and> (\<forall>i<Suc M. ((rotatePlayers ^^ r) ps) ! i = ps ! idx M r i)"
proof (induction r)
  case 0
  show ?case using assms by (auto simp: idx_def split: nat.splits)
next
  case (Suc r)
  let ?qs = "(rotatePlayers ^^ r) ps"
  have len: "length ?qs = Suc M" and nth: "\<And>i. i < Suc M \<Longrightarrow> ?qs ! i = ps ! idx M r i"
    using Suc by simp_all
  have l2: "2 \<le> length ?qs" using assms(2) len by simp
  have "rotatePlayers ?qs ! i = ps ! idx M (Suc r) i" if "i < Suc M" for i
  proof (cases i)
    case 0
    have "?qs ! 0 = ps ! 0" using nth[of 0] by (simp add: idx_def)
    then show ?thesis using rotatePlayers_nth(1)[OF l2] 0 by (simp add: idx_def)
  next
    case (Suc j)
    then have j: "j < M" using that by simp
    define k where "k = (M - 1 + j) mod M"
    have k: "k < M" unfolding k_def using assms(2) by simp
    have "length ?qs - 2 = M - 1" "length ?qs - 1 = M" using len by simp_all
    then have "rotatePlayers ?qs ! Suc j = ?qs ! Suc k"
      using rotatePlayers_nth(2)[OF l2, of j] j unfolding k_def by simp
    also have "\<dots> = ps ! idx M r (Suc k)" using k by (intro nth) simp
    also have "idx M r (Suc k) = Suc ((r * (M - 1) + (M - 1 + j)) mod M)"
      unfolding k_def by (simp add: idx_def mod_add_right_eq)
    also have "r * (M - 1) + (M - 1 + j) = Suc r * (M - 1) + j" by simp
    finally show ?thesis by (simp add: idx_def Suc)
  qed
  then show ?case by (simp add: rotatePlayers_length len)
qed

lemma set_rotatePlayers: "set (rotatePlayers qs) = set qs"
proof (cases qs rule: rev_cases)
  case Nil
  then show ?thesis by (simp add: rotatePlayers_def)
next
  case (snoc bs l)
  have "set (take 1 bs) \<union> set (drop 1 bs) = set bs"
    by (metis append_take_drop_id set_append)
  then show ?thesis by (auto simp: rotatePlayers_def snoc)
qed

lemma set_rot_pow: "set ((rotatePlayers ^^ r) ps) = set ps"
  by (induction r) (simp_all add: set_rotatePlayers)

lemma firstLeg_unroll:
  "firstLeg k r0 ps = map (\<lambda>j. roundMatches (r0 + j) ((rotatePlayers ^^ j) ps)) [0..<k]"
proof (induction k arbitrary: r0 ps)
  case 0
  show ?case by simp
next
  case (Suc k)
  have "map (\<lambda>j. roundMatches (r0 + j) ((rotatePlayers ^^ j) ps)) [0..<Suc k] =
        roundMatches r0 ps # map (\<lambda>j. roundMatches (r0 + Suc j) ((rotatePlayers ^^ Suc j) ps)) [0..<k]"
    by (simp only: upt_conv_Cons[of 0 "Suc k"] zero_less_Suc list.map map_Suc_upt[symmetric] map_map o_def)
       simp
  then show ?case by (simp add: Suc.IH funpow_swap1 del: upt_Suc)
qed

lemma concat_map_single: "(\<And>x. x \<in> set xs \<Longrightarrow> f x = [g x]) \<Longrightarrow> concat (map f xs) = map g xs"
  by (induction xs) simp_all

lemma roundMatches_plain:
  assumes "''BYE'' \<notin> set qs"
  shows "roundMatches r qs =
     map (\<lambda>m. \<lparr>home = qs ! m, away = qs ! (length qs - 1 - m), fx_round = r + 1\<rparr>)
         [0..<length qs div 2]"
  unfolding roundMatches_def
proof (rule concat_map_single)
  fix m assume "m \<in> set [0..<length qs div 2]"
  then have "m < length qs" "length qs - 1 - m < length qs" by auto
  then have "qs ! m \<in> set qs" "qs ! (length qs - 1 - m) \<in> set qs" by simp_all
  then show "(let h = qs ! m; a = qs ! (length qs - 1 - m)
         in if h \<noteq> ''BYE'' \<and> a \<noteq> ''BYE'' then [\<lparr>home = h, away = a, fx_round = r + 1\<rparr>] else [])
      = [\<lparr>home = qs ! m, away = qs ! (length qs - 1 - m), fx_round = r + 1\<rparr>]"
    using assms by (auto simp: Let_def)
qed

lemma mod_cancel:
  fixes a b c d M :: nat
  assumes "coprime c M" and "a < M" and "b < M" and "(c * a + d) mod M = (c * b + d) mod M"
  shows "a = b"
proof -
  have aux: "x = y" if "x \<le> y" "y < M" "(c * x + d) mod M = (c * y + d) mod M" for x y
  proof -
    have "c * x + d \<le> c * y + d" using that(1) by simp
    then have "M dvd (c * y + d) - (c * x + d)"
      using that(3) by (metis mod_eq_dvd_iff_nat)
    moreover have "(c * y + d) - (c * x + d) = c * (y - x)"
      by (simp add: diff_mult_distrib2)
    ultimately have "M dvd c * (y - x)" by simp
    moreover have "coprime M c" using assms(1) by (simp add: coprime_commute)
    ultimately have "M dvd y - x" by (simp add: coprime_dvd_mult_right_iff)
    moreover have "y - x < M" using that(2) by simp
    ultimately have "y - x = 0" using nat_dvd_not_less by blast
    then show ?thesis using that(1) by simp
  qed
  show ?thesis
  proof (cases "a \<le> b")
    case True
    then show ?thesis using aux[of a b] assms by simp
  next
    case False
    then show ?thesis using aux[of b a] assms by simp
  qed
qed

lemma idx_less: "0 < M \<Longrightarrow> i \<le> M \<Longrightarrow> idx M r i \<le> M"
  by (cases i) (simp_all add: idx_def Suc_le_eq)

lemma idx_inj:
  assumes "0 < M" and "i \<le> M" and "j \<le> M" and "idx M r i = idx M r j"
  shows "i = j"
proof (cases i)
  case 0
  then show ?thesis using assms(4) by (cases j) (simp_all add: idx_def)
next
  case (Suc i')
  then obtain j' where j: "j = Suc j'" using assms(4) by (cases j) (simp_all add: idx_def)
  have "(1 * i' + r * (M - 1)) mod M = (1 * j' + r * (M - 1)) mod M"
    using assms(4) by (simp add: idx_def Suc j add.commute)
  then have "i' = j'"
    using assms(2,3) Suc j by (intro mod_cancel[of 1 M i' j' "r * (M - 1)"]) simp_all
  then show ?thesis by (simp add: Suc j)
qed


lemma key_round:
  fixes M r r' :: nat
  assumes "odd M" and "r < M" and "r' < M"
    and "(2 * (M - 1) * r + 2 * (M - 1)) mod M = (2 * (M - 1) * r' + 2 * (M - 1)) mod M"
  shows "r = r'"
proof -
  have "0 < M" using assms(1) by (rule odd_pos)
  then have "coprime (M - 1) M" by (rule coprime_diff_one_left_nat)
  moreover have "coprime 2 M" using assms(1) by simp
  ultimately have "coprime (2 * (M - 1)) M" by simp
  then show ?thesis using assms(2,3,4) by (rule mod_cancel)
qed

lemma slot_key0:
  assumes "0 < M"
  shows "\<exists>z. slot M r 0 = {0, Suc z} \<and> z < M \<and> (z + z) mod M = (2 * (M - 1) * r + 2 * (M - 1)) mod M"
proof -
  obtain M' where M: "M = Suc M'" using assms by (cases M) auto
  define z where "z = (r * (M - 1) + M') mod M"
  have 1: "slot M r 0 = {0, Suc z}" by (simp add: slot_def idx_def M z_def)
  have 2: "z < M" unfolding z_def using assms by simp
  have "(z + z) mod M = ((r * (M - 1) + M') + (r * (M - 1) + M')) mod M"
    unfolding z_def by (simp add: mod_add_eq)
  also have "(r * (M - 1) + M') + (r * (M - 1) + M') = 2 * (M - 1) * r + 2 * (M - 1)"
    by (simp add: M algebra_simps)
  finally have 3: "(z + z) mod M = (2 * (M - 1) * r + 2 * (M - 1)) mod M" .
  show ?thesis using 1 2 3 by blast
qed

lemma slot_key:
  fixes M m :: nat
  assumes "0 < m" and "2 * m < M"
  shows "\<exists>x y. slot M r m = {Suc x, Suc y} \<and> x < M \<and> y < M
     \<and> (x + y) mod M = (2 * (M - 1) * r + 2 * (M - 1)) mod M"
proof -
  obtain m' where m: "m = Suc m'" using assms(1) by (cases m) auto
  obtain k where k: "M - m = Suc k" using assms(2) by (cases "M - m") auto
  define x where "x = (r * (M - 1) + m') mod M"
  define y where "y = (r * (M - 1) + k) mod M"
  have M0: "0 < M" using assms by simp
  have i1: "idx M r m = Suc x" by (simp add: idx_def m x_def)
  have i2: "idx M r (M - m) = Suc y" unfolding k by (simp add: idx_def y_def)
  have 1: "slot M r m = {Suc x, Suc y}" unfolding slot_def i1 i2 ..
  have 2: "x < M" "y < M" unfolding x_def y_def using M0 by simp_all
  have "m' + k + M = 2 * (M - 1)" using m k assms(2) by simp
  then have e: "(r * (M - 1) + m') + (r * (M - 1) + k) + M = 2 * (M - 1) * r + 2 * (M - 1)"
    by (simp add: algebra_simps)
  have "(x + y) mod M = ((r * (M - 1) + m') + (r * (M - 1) + k)) mod M"
    unfolding x_def y_def by (simp add: mod_add_eq)
  also have "\<dots> = ((r * (M - 1) + m') + (r * (M - 1) + k) + M) mod M" by simp
  also have "\<dots> = (2 * (M - 1) * r + 2 * (M - 1)) mod M" unfolding e ..
  finally have 3: "(x + y) mod M = (2 * (M - 1) * r + 2 * (M - 1)) mod M" .
  show ?thesis using 1 2 3 by blast
qed

lemma slot_card:
  fixes M m :: nat
  assumes "0 < M" and "2 * m < M"
  shows "idx M r m \<noteq> idx M r (M - m)" and "slot M r m \<subseteq> {..M}"
proof -
  have "m \<le> M" "M - m \<le> M" "m \<noteq> M - m" using assms(2) by linarith+
  then show "idx M r m \<noteq> idx M r (M - m)"
    using idx_inj[OF assms(1), of m "M - m" r] by blast
  show "slot M r m \<subseteq> {..M}"
    using idx_less[OF assms(1), of m r] idx_less[OF assms(1), of "M - m" r] assms(2)
    by (auto simp: slot_def)
qed

lemma slot_inj:
  fixes M r r' m m' :: nat
  assumes "odd M" and "r < M" and "r' < M" and "2 * m < M" and "2 * m' < M"
    and "slot M r m = slot M r' m'"
  shows "r = r' \<and> m = m'"
proof -
  have M0: "0 < M" using assms(1) by (rule odd_pos)
  let ?key = "\<lambda>r. (2 * (M - 1) * r + 2 * (M - 1)) mod M"
  have "?key r = ?key r'"
  proof (cases "m = 0")
    case True
    obtain z where z: "slot M r 0 = {0, Suc z}" "(z + z) mod M = ?key r"
      using slot_key0[OF M0, of r] by blast
    show ?thesis
    proof (cases "m' = 0")
      case True
      obtain z' where z': "slot M r' 0 = {0, Suc z'}" "(z' + z') mod M = ?key r'"
        using slot_key0[OF M0, of r'] by blast
      have "{0, Suc z} = {0, Suc z'}" using assms(6) \<open>m = 0\<close> True z(1) z'(1) by simp
      then have "z = z'" unfolding doubleton_eq_iff by simp
      then show ?thesis using z(2) z'(2) by simp
    next
      case False
      then obtain x y where "slot M r' m' = {Suc x, Suc y}"
        using slot_key[of m' M r'] assms(5) by auto
      then have "{0, Suc z} = {Suc x, Suc y}" using assms(6) \<open>m = 0\<close> z(1) by simp
      then have False unfolding doubleton_eq_iff by simp
      then show ?thesis ..
    qed
  next
    case False
    then obtain x y where xy: "slot M r m = {Suc x, Suc y}" "(x + y) mod M = ?key r"
      using slot_key[of m M r] assms(4) by auto
    show ?thesis
    proof (cases "m' = 0")
      case True
      obtain z' where "slot M r' 0 = {0, Suc z'}" using slot_key0[OF M0, of r'] by blast
      then have "{Suc x, Suc y} = {0, Suc z'}" using assms(6) True xy(1) by simp
      then have False unfolding doubleton_eq_iff by simp
      then show ?thesis ..
    next
      case False
      then obtain x' y' where xy': "slot M r' m' = {Suc x', Suc y'}" "(x' + y') mod M = ?key r'"
        using slot_key[of m' M r'] assms(5) by auto
      have "{Suc x, Suc y} = {Suc x', Suc y'}" using assms(6) xy(1) xy'(1) by simp
      then have "x + y = x' + y'" unfolding doubleton_eq_iff by auto
      then show ?thesis using xy(2) xy'(2) by simp
    qed
  qed
  then have r: "r = r'" using key_round[OF assms(1,2,3)] by simp
  have "{idx M r m, idx M r (M - m)} = {idx M r m', idx M r (M - m')}"
    using assms(6) unfolding r slot_def .
  then have "idx M r m = idx M r m' \<or> idx M r m = idx M r (M - m')"
    unfolding doubleton_eq_iff by blast
  moreover have "m \<le> M" "m' \<le> M" "M - m' \<le> M" using assms(4,5) by simp_all
  ultimately have "m = m' \<or> m = M - m'"
    using idx_inj[OF M0, of m m' r] idx_inj[OF M0, of m "M - m'" r] by blast
  moreover have "m \<noteq> M - m'" using assms(4,5) by linarith
  ultimately show ?thesis using r by simp
qed

lemma pairings_firstLeg:
  assumes "length ps = Suc M" and "0 < M" and "''BYE'' \<notin> set ps"
  shows "pairings (firstLeg M 0 ps) =
     map (\<lambda>(r, m). (ps ! idx M r m, ps ! idx M r (M - m)))
         (List.product [0..<M] [0..<Suc M div 2])"
proof -
  have R: "map (\<lambda>f. (home f, away f)) (roundMatches (0 + j) ((rotatePlayers ^^ j) ps)) =
      map (\<lambda>m. (ps ! idx M j m, ps ! idx M j (M - m))) [0..<Suc M div 2]" for j
  proof -
    let ?qs = "(rotatePlayers ^^ j) ps"
    have len: "length ?qs = Suc M" and nth: "\<And>i. i < Suc M \<Longrightarrow> ?qs ! i = ps ! idx M j i"
      using rot_pow[OF assms(1,2), of j] by simp_all
    have "''BYE'' \<notin> set ?qs" using assms(3) by (simp add: set_rot_pow)
    then have "map (\<lambda>f. (home f, away f)) (roundMatches (0 + j) ?qs) =
        map (\<lambda>m. (?qs ! m, ?qs ! (M - m))) [0..<Suc M div 2]"
      by (simp add: roundMatches_plain len o_def)
    also have "\<dots> = map (\<lambda>m. (ps ! idx M j m, ps ! idx M j (M - m))) [0..<Suc M div 2]"
    proof (rule map_cong[OF refl])
      fix m assume "m \<in> set [0..<Suc M div 2]"
      then have "m < Suc M" "M - m < Suc M" by auto
      then show "(?qs ! m, ?qs ! (M - m)) = (ps ! idx M j m, ps ! idx M j (M - m))"
        using nth by simp
    qed
    finally show ?thesis .
  qed
  have "pairings (firstLeg M 0 ps) =
      concat (map (\<lambda>j. map (\<lambda>f. (home f, away f)) (roundMatches (0 + j) ((rotatePlayers ^^ j) ps)))
                  [0..<M])"
    by (simp add: pairings_def firstLeg_unroll map_concat o_def)
  also have "\<dots> = concat (map (\<lambda>j. map (\<lambda>m. (ps ! idx M j m, ps ! idx M j (M - m)))
                                   [0..<Suc M div 2]) [0..<M])"
    by (simp only: R)
  also have "\<dots> = map (\<lambda>(r, m). (ps ! idx M r m, ps ! idx M r (M - m)))
         (List.product [0..<M] [0..<Suc M div 2])"
    by (simp add: product_concat_map map_concat o_def)
  finally show ?thesis .
qed

lemma count_unordered:
  "a \<noteq> b \<Longrightarrow> count_list (map (\<lambda>(h, a'). {h, a'}) xs) {a, b}
     = count_list xs (a, b) + count_list xs (b, a)"
  by (induction xs) (auto simp: doubleton_eq_iff)

lemma count_list_swap: "count_list (map prod.swap xs) (a, b) = count_list xs (b, a)"
  by (induction xs) auto

lemma first_leg_unordered:
  fixes M :: nat
  assumes len: "length ps = Suc M" and odd: "odd M" and d: "distinct ps" and nb: "''BYE'' \<notin> set ps"
  defines "U \<equiv> map (\<lambda>(h, a'). {h, a'}) (pairings (firstLeg M 0 ps))"
  shows "distinct U" and "set U = {S. S \<subseteq> set ps \<and> card S = 2}"
proof -
  have M0: "0 < M" using odd by (rule odd_pos)
  let ?rs = "[0..<M]" and ?ms = "[0..<Suc M div 2]"
  let ?f = "\<lambda>(r, m). (!) ps ` slot M r m"
  have U: "U = map ?f (List.product ?rs ?ms)"
    unfolding U_def pairings_firstLeg[OF len M0 nb]
    by (simp add: slot_def o_def split_def)
  have half: "2 * m < M" if "m < Suc M div 2" for m
  proof -
    have "2 * m \<le> M" using that by linarith
    moreover have "2 * m \<noteq> M" using odd by auto
    ultimately show ?thesis by simp
  qed
  have inj_ps: "inj_on ((!) ps) {..M}"
    using d len by (metis inj_on_nth lessThan_Suc_atMost lessThan_iff)
  have sub: "slot M r m \<subseteq> {..M}" if "m < Suc M div 2" for r m
    using slot_card(2)[OF M0 half[OF that]] .
  have inj: "inj_on ?f (set (List.product ?rs ?ms))"
  proof (rule inj_onI)
    fix x y assume x: "x \<in> set (List.product ?rs ?ms)" and y: "y \<in> set (List.product ?rs ?ms)"
      and e: "?f x = ?f y"
    obtain r m where xr: "x = (r, m)" by (cases x)
    obtain r' m' where yr: "y = (r', m')" by (cases y)
    have b: "r < M" "m < Suc M div 2" "r' < M" "m' < Suc M div 2" using x y xr yr by auto
    have "(!) ps ` slot M r m = (!) ps ` slot M r' m'" using e xr yr by simp
    then have "slot M r m = slot M r' m'"
      using inj_on_image_eq_iff[OF inj_ps sub[OF b(2)] sub[OF b(4)]] by simp
    then have "r = r' \<and> m = m'"
      using slot_inj[OF odd b(1) b(3) half[OF b(2)] half[OF b(4)]] by simp
    then show "x = y" using xr yr by simp
  qed
  show dU: "distinct U"
    unfolding U using inj by (simp add: distinct_map distinct_product)
  have lenU: "length U = M * (Suc M div 2)" unfolding U by simp
  let ?T = "{S. S \<subseteq> set ps \<and> card S = 2}"
  have subT: "set U \<subseteq> ?T"
  proof
    fix S assume "S \<in> set U"
    then obtain r m where rm: "r < M" "m < Suc M div 2" and S: "S = (!) ps ` slot M r m"
      unfolding U by auto
    have c2: "card (slot M r m) = 2"
      using slot_card(1)[OF M0 half[OF rm(2)], of r] by (simp add: slot_def)
    have "inj_on ((!) ps) (slot M r m)" using inj_ps sub[OF rm(2)] by (rule inj_on_subset)
    then have "card S = 2" unfolding S using c2 by (simp add: card_image)
    moreover have "S \<subseteq> set ps"
      unfolding S using sub[OF rm(2), of r] len by (auto simp: subset_iff le_imp_less_Suc)
    ultimately show "S \<in> ?T" by simp
  qed
  have "card (set ps) = Suc M" using d len by (simp add: distinct_card)
  then have "card ?T = Suc M choose 2" using n_subsets[of "set ps" 2] by simp
  also have "\<dots> = Suc M * M div 2" by (simp add: choose_two)
  also have "\<dots> = M * (Suc M div 2)"
  proof -
    obtain k where k: "Suc M = 2 * k" using odd by (metis even_Suc evenE)
    show ?thesis unfolding k by simp
  qed
  finally have "card ?T = card (set U)" using dU lenU by (simp add: distinct_card)
  moreover have "finite ?T" by simp
  ultimately show "set U = ?T" using subT by (metis card_subset_eq)
qed

lemma pairings_return:
  "length js = length xss \<Longrightarrow>
   pairings (map (\<lambda>(roundFixtures, roundIndex).
                    map (\<lambda>m. \<lparr>home = away m, away = home m, fx_round = c roundIndex\<rparr>) roundFixtures)
                 (zip xss js))
     = map prod.swap (pairings xss)"
proof (induction xss arbitrary: js)
  case Nil
  then show ?case by (simp add: pairings_def)
next
  case (Cons xs xss)
  then obtain j js' where js: "js = j # js'" by (cases js) auto
  have "pairings (map (\<lambda>(roundFixtures, roundIndex).
                    map (\<lambda>m. \<lparr>home = away m, away = home m, fx_round = c roundIndex\<rparr>) roundFixtures)
                 (zip xss js')) = map prod.swap (pairings xss)"
    using Cons.prems js by (intro Cons.IH) simp
  then show ?case by (simp add: js pairings_def o_def)
qed

lemma pairings_schedule:
  "even (length names) \<Longrightarrow>
   pairings (generateEnhancedFixtures names) =
     pairings (firstLeg (length names - 1) 0 names)
       @ map prod.swap (pairings (firstLeg (length names - 1) 0 names))"
proof -
  assume e: "even (length names)"
  then have "length names mod 2 \<noteq> 1" by presburger
  then have g: "generateEnhancedFixtures names =
      firstLeg (length names - 1) 0 names @
      map (\<lambda>(roundFixtures, roundIndex).
             map (\<lambda>m. \<lparr>home = away m, away = home m,
                        fx_round = roundIndex + (length names - 1) + 1\<rparr>) roundFixtures)
          (zip (firstLeg (length names - 1) 0 names)
               [0..<length (firstLeg (length names - 1) 0 names)])"
    by (simp add: generateEnhancedFixtures_def Let_def)
  have "pairings (xs @ ys) = pairings xs @ pairings ys" for xs ys
    by (simp add: pairings_def)
  then show ?thesis
    unfolding g
    using pairings_return[of "[0..<length (firstLeg (length names - 1) 0 names)]"
        "firstLeg (length names - 1) 0 names" "\<lambda>i. i + (length names - 1) + 1"]
    by simp
qed

lemma filter_unordered:
  "a \<noteq> b \<Longrightarrow> length (filter (\<lambda>(h, a'). {h, a'} = {a, b}) xs)
     = count_list xs (a, b) + count_list xs (b, a)"
  by (induction xs) (auto simp: doubleton_eq_iff)

text \<open>
  Claim C5, amended. For every even number \<open>N\<close> of distinct players none of whom is named
  \<^verbatim>\<open>'BYE'\<close> (the name the generator reserves for its placeholder), the schedule holds
  exactly \<open>N * (N - 1)\<close> fixtures over all rounds, and for every two different players
  \<open>a\<close> and \<open>b\<close> exactly one fixture has \<open>a\<close> at home against \<open>b\<close>; as the same holds for
  \<open>b\<close> and \<open>a\<close>, the two meet in exactly two fixtures, with home and away swapped.
\<close>

theorem double_round_robin:
  assumes "even (length names)" and "distinct names" and "''BYE'' \<notin> set names"
  shows "length (pairings (generateEnhancedFixtures names)) = length names * (length names - 1)
     \<and> (\<forall>a\<in>set names. \<forall>b\<in>set names. a \<noteq> b \<longrightarrow>
           count_list (pairings (generateEnhancedFixtures names)) (a, b) = 1
           \<and> length (filter (\<lambda>(h, a'). {h, a'} = {a, b})
                       (pairings (generateEnhancedFixtures names))) = 2)"
proof (cases "length names")
  case 0
  then show ?thesis by (simp add: generateEnhancedFixtures_def pairings_def)
next
  case (Suc M)
  then have odd: "odd M" using assms(1) by simp
  let ?P = "pairings (firstLeg M 0 names)"
  let ?U = "map (\<lambda>(h, a'). {h, a'}) ?P"
  have S: "pairings (generateEnhancedFixtures names) = ?P @ map prod.swap ?P"
    using pairings_schedule[OF assms(1)] Suc by simp
  note F = first_leg_unordered[OF Suc odd assms(2,3)]
  have c: "card (set ?U) = length ?U" using F(1) by (rule distinct_card)
  have "card (set ?U) = Suc M choose 2"
    unfolding F(2) using n_subsets[of "set names" 2] assms(2) Suc by (simp add: distinct_card)
  then have "length ?P = Suc M * M div 2" using c by (simp add: choose_two)
  moreover have "even (Suc M * M)" using odd by simp
  ultimately have lenP: "2 * length ?P = Suc M * M" by simp
  have one: "count_list ?P (a, b) + count_list ?P (b, a) = 1"
    if "a \<in> set names" "b \<in> set names" "a \<noteq> b" for a b
  proof -
    have "card {a, b} = 2" using that(3) by simp
    then have "{a, b} \<in> set ?U" unfolding F(2) using that(1,2) by simp
    then have "count_list ?U {a, b} = 1" using F(1) by (simp add: count_list_distinct)
    then show ?thesis using count_unordered[OF that(3), of ?P] by simp
  qed
  have "count_list (?P @ map prod.swap ?P) (a, b) = 1
        \<and> length (filter (\<lambda>(h, a'). {h, a'} = {a, b}) (?P @ map prod.swap ?P)) = 2"
    if "a \<in> set names" "b \<in> set names" "a \<noteq> b" for a b
  proof -
    have 1: "count_list (?P @ map prod.swap ?P) (a, b) = 1"
      and 2: "count_list (?P @ map prod.swap ?P) (b, a) = 1"
      using one[OF that] by (simp_all add: count_list_swap)
    show ?thesis
      unfolding filter_unordered[OF that(3)] using 1 2 by simp
  qed
  then show ?thesis unfolding S using lenP Suc by simp
qed


text \<open>Four players: twelve fixtures, Ann and Cy meet once at each home.\<close>

theorem double_round_robin_witness:
  "even (length [''Ann'', ''Bob'', ''Cy'', ''Di'']) \<and> distinct [''Ann'', ''Bob'', ''Cy'', ''Di'']
   \<and> ''BYE'' \<notin> set [''Ann'', ''Bob'', ''Cy'', ''Di'']
   \<and> length (pairings (generateEnhancedFixtures [''Ann'', ''Bob'', ''Cy'', ''Di''])) = 12
   \<and> count_list (pairings (generateEnhancedFixtures [''Ann'', ''Bob'', ''Cy'', ''Di''])) (''Ann'', ''Cy'') = 1
   \<and> count_list (pairings (generateEnhancedFixtures [''Ann'', ''Bob'', ''Cy'', ''Di''])) (''Cy'', ''Ann'') = 1
   \<and> length (filter (\<lambda>(h, a'). {h, a'} = {''Ann'', ''Cy''})
               (pairings (generateEnhancedFixtures [''Ann'', ''Bob'', ''Cy'', ''Di'']))) = 2"
  using double_round_robin[of "[''Ann'', ''Bob'', ''Cy'', ''Di'']"] by simp

text \<open>
  Claim C5 as stated fails for two distinct players of whom one has registered under the
  name \<^verbatim>\<open>BYE\<close>, which the join handler accepts: the generator takes that player for its
  placeholder, drops the pairing, and the schedule has no fixture where the claim says two.
\<close>

theorem bye_named_player_counterexample:
  "even (length [''BYE'', ''Al'']) \<and> distinct [''BYE'', ''Al'']
   \<and> generateEnhancedFixtures [''BYE'', ''Al''] = [[], []]
   \<and> length (pairings (generateEnhancedFixtures [''BYE'', ''Al''])) = 0
   \<and> length [''BYE'', ''Al''] * (length [''BYE'', ''Al''] - 1) = 2"
  by code_simp

end
